theory Spec2Isabelle
  imports Main
begin


section \<open>The Qt shell around the node: data model\<close>

text \<open>
  The program is a Qt application: a controller object builds a window and a worker,
  wires them with signal/slot connections, moves the worker to a thread of its own and
  enters the event loop. Three threads take part: the GUI thread (which runs
  \<open>GuiMain\<close> and the application's event loop), the thread the worker is moved to
  (\<open>m_node_thread\<close>) and the thread on which the init executor does its work.
\<close>

datatype thread = GuiThread | NodeThread | ExecutorThread

text \<open>
  The objects that send or receive signals: the \<open>GuiController\<close>, the
  \<open>BitcoinGUI\<close> window, its \<open>QPushButton\<close>, the \<open>NodeWorker\<close> and the
  \<open>InitExecutor\<close> the worker owns.
\<close>

datatype obj = Controller | Window | Button | Worker | Executor

text \<open>
  A member function named in a \<open>connect\<close> call, a signal or a slot; the object it is
  invoked on tells the class (\<open>&BitcoinGUI::listCommands\<close> is \<open>M_listCommands\<close> on
  \<open>Window\<close>, a signal; \<open>&NodeWorker::listCommands\<close> is \<open>M_listCommands\<close> on
  \<open>Worker\<close>, a slot).
\<close>

datatype member =
    M_clicked | M_quitRequested | M_listCommands | M_rcvCommands | M_doClose | M_show
  | M_initNode | M_commands | M_baseInitSuccess | M_baseInitFail | M_initSuccess
  | M_initFail | M_shutdown | M_shutdownResult | M_baseInitNode | M_initializeResult
  | M_onBaseInitFail | M_onInitFail | M_onShutdown | M_quitApplication

text \<open>\<open>interfaces::BlockAndHeaderTipInfo\<close>: the code reads its header height only.\<close>

record BlockAndHeaderTipInfo =
  header_height :: int

text \<open>The arguments a signal carries to its slots.\<close>

datatype arg =
    NoArg
  | Commands "string list"
  | InitResult bool BlockAndHeaderTipInfo

type_synonym connection = "obj \<times> member \<times> obj \<times> member"

text \<open>
  What waits in a thread's event queue: a queued slot invocation (a meta call), or a
  piece of work the executor has scheduled on its own thread.
\<close>

datatype event =
    MetaCall obj member arg
  | InitializeJob
  | ShutdownJob

datatype severity = Debug | Critical

datatype log_item = Str string | Tid thread | Num int

text \<open>
  The observable actions of a run, in the order they happen: log lines, calls into the
  node and the surrounding libraries, signal emissions, slot invocations, and what
  happens to the window and the application.
\<close>

datatype action =
    Log severity "log_item list"
  | Called string
  | BaseInitialize bool
  | ExecutorInitialize
  | AppInitMain bool
  | AppShutdown
  | ListRpcCommands "string list"
  | Emit obj member arg
  | Call obj member arg
  | CloseAccepted
  | CloseIgnored
  | AppExit int

datatype exn = StdException string | OtherException

text \<open>
  The surroundings of the program: the results of the calls it makes into code that is
  not its own. A call that the program makes more than once (or could) is answered by
  the number of earlier calls.
\<close>

record env =
  ParseParameters :: "bool \<times> string"
  InitConfig :: "exn + string option"
  InitLogging :: "exn option"
  InitParameterInteraction :: "exn option"
  MakeNode :: "exn option"
  baseInitialize :: "nat \<Rightarrow> bool"
  appInitMain :: "nat \<Rightarrow> bool \<times> BlockAndHeaderTipInfo"
  listRpcCommands :: "nat \<Rightarrow> string list"

record state =
  m_allow_close :: bool
  visible :: bool
  constructed :: "obj list"
  connections :: "connection list"
  affinity :: "obj \<Rightarrow> thread"
  queues :: "thread \<Rightarrow> event list"
  node_thread_started :: bool
  in_exec :: bool
  exit_code :: "int option"
  n_baseInitialize :: nat
  n_appInitMain :: nat
  n_listRpcCommands :: nat
  trace :: "action list"

definition initial_state :: state where
  "initial_state =
     \<lparr> m_allow_close = False, visible = False, constructed = [], connections = [],
       affinity = (\<lambda>_. GuiThread), queues = (\<lambda>_. []), node_thread_started = False,
       in_exec = False, exit_code = None, n_baseInitialize = 0, n_appInitMain = 0,
       n_listRpcCommands = 0, trace = [] \<rparr>"

section \<open>Qt primitives\<close>

definition record_action :: "action \<Rightarrow> state \<Rightarrow> state" where
  "record_action a st = st\<lparr>trace := trace st @ [a]\<rparr>"

definition qDebug :: "log_item list \<Rightarrow> state \<Rightarrow> state" where
  "qDebug items st = record_action (Log Debug items) st"

definition qCritical :: "log_item list \<Rightarrow> state \<Rightarrow> state" where
  "qCritical items st = record_action (Log Critical items) st"

text \<open>
  \<open>QCoreApplication::exit(returnCode)\<close> returns to its caller. It tells the main event
  loop to leave \<open>exec()\<close> with \<open>returnCode\<close>, and a later call replaces the code
  of an earlier one; when the event loop is not running it does nothing. The worker
  calls it from its own thread; the call reaches the main event loop all the same.
\<close>

definition QCoreApplication_exit :: "int \<Rightarrow> state \<Rightarrow> state" where
  "QCoreApplication_exit returnCode st =
     (let st1 = record_action (AppExit returnCode) st
      in if in_exec st1 then st1\<lparr>exit_code := Some returnCode\<rparr> else st1)"

text \<open>\<open>QObject::connect\<close> adds a connection; a repeated call adds a second one.\<close>

definition connect :: "obj \<Rightarrow> member \<Rightarrow> obj \<Rightarrow> member \<Rightarrow> state \<Rightarrow> state" where
  "connect sender sig receiver slot st =
     st\<lparr>connections := connections st @ [(sender, sig, receiver, slot)]\<rparr>"

definition postEvent :: "thread \<Rightarrow> event \<Rightarrow> state \<Rightarrow> state" where
  "postEvent t e st = st\<lparr>queues := (queues st)(t := queues st t @ [e])\<rparr>"

definition moveToThread :: "obj \<Rightarrow> thread \<Rightarrow> state \<Rightarrow> state" where
  "moveToThread ob t st = st\<lparr>affinity := (affinity st)(ob := t)\<rparr>"

text \<open>
  A slot invocation and a signal emission have the same shape: an object, a member, the
  arguments, and the state they change. The result is \<open>None\<close> when the calls nested
  in it never return.
\<close>

type_synonym invoker = "obj \<Rightarrow> member \<Rightarrow> arg \<Rightarrow> state \<Rightarrow> state option"

type_synonym emitter = "obj \<Rightarrow> member \<Rightarrow> arg \<Rightarrow> state \<Rightarrow> state option"

text \<open>
  Emitting a signal in thread \<open>t\<close> activates the connections of that signal in the
  order they were made, a connection made twice twice. Every \<open>connect\<close> of the
  program has the default connection type: a slot whose receiver lives in the emitting
  thread is called at once, before the emit returns; otherwise the call is queued on the
  receiver's thread. \<open>call\<close> invokes a slot in thread \<open>t\<close>.
\<close>

fun activate :: "invoker \<Rightarrow> thread \<Rightarrow> connection list \<Rightarrow> arg \<Rightarrow> state \<Rightarrow> state option" where
  "activate call t [] a st = Some st"
| "activate call t ((sender, sig, receiver, slot) # cs) a st =
     (if affinity st receiver = t
      then Option.bind (call receiver slot a st) (activate call t cs a)
      else activate call t cs a (postEvent (affinity st receiver) (MetaCall receiver slot a) st))"

definition emit :: "invoker \<Rightarrow> thread \<Rightarrow> obj \<Rightarrow> member \<Rightarrow> arg \<Rightarrow> state \<Rightarrow> state option" where
  "emit call t sender sig a st =
     activate call t
       (filter (\<lambda>(sender', sig', receiver, slot). sender' = sender \<and> sig' = sig) (connections st))
       a (record_action (Emit sender sig a) st)"

section \<open>The node and the init executor\<close>

text \<open>\<open>m_node->baseInitialize()\<close> and \<open>m_node->listRpcCommands()\<close>: calls into the node.\<close>

definition node_baseInitialize :: "env \<Rightarrow> state \<Rightarrow> bool \<times> state" where
  "node_baseInitialize env st =
     (let r = baseInitialize env (n_baseInitialize st)
      in (r, record_action (BaseInitialize r) (st\<lparr>n_baseInitialize := Suc (n_baseInitialize st)\<rparr>)))"

definition node_listRpcCommands :: "env \<Rightarrow> state \<Rightarrow> string list \<times> state" where
  "node_listRpcCommands env st =
     (let r = listRpcCommands env (n_listRpcCommands st)
      in (r, record_action (ListRpcCommands r) (st\<lparr>n_listRpcCommands := Suc (n_listRpcCommands st)\<rparr>)))"

text \<open>
  Modelled from the spec: \<open>InitExecutor\<close> (\<open>minta/initexecutor.h\<close> is not among the
  sources). The spec gives the node an asynchronous \<open>initialize()\<close> that yields a
  success flag and the tip information, and a \<open>shutdown()\<close> with an asynchronous
  completion signal. So \<open>initialize()\<close> and \<open>shutdown()\<close> only schedule the work on
  the executor's thread; when the work has run there, the executor emits
  \<open>initializeResult(success, tip_info)\<close> or \<open>shutdownResult()\<close>, once.
\<close>

definition InitExecutor_initialize :: "state \<Rightarrow> state" where
  "InitExecutor_initialize st = postEvent ExecutorThread InitializeJob (record_action ExecutorInitialize st)"

definition InitExecutor_shutdown :: "state \<Rightarrow> state" where
  "InitExecutor_shutdown st = postEvent ExecutorThread ShutdownJob st"

definition run_InitializeJob :: "emitter \<Rightarrow> env \<Rightarrow> state \<Rightarrow> state option" where
  "run_InitializeJob em env st =
     (let (rv, tip_info) = appInitMain env (n_appInitMain st);
          st1 = record_action (AppInitMain rv) (st\<lparr>n_appInitMain := Suc (n_appInitMain st)\<rparr>)
      in em Executor M_initializeResult (InitResult rv tip_info) st1)"

definition run_ShutdownJob :: "emitter \<Rightarrow> state \<Rightarrow> state option" where
  "run_ShutdownJob em st = em Executor M_shutdownResult NoArg (record_action AppShutdown st)"

section \<open>\<open>NodeWorker\<close>\<close>

text \<open>
  Each slot takes \<open>em\<close>, the emit of the thread it runs in (\<open>Q_EMIT\<close>), and that
  thread where it logs \<open>QThread::currentThreadId()\<close>.
\<close>

definition NodeWorker_NodeWorker :: "env \<Rightarrow> state \<Rightarrow> (exn \<times> state) + state" where
  "NodeWorker_NodeWorker env st =
     (case MakeNode env of
        Some e \<Rightarrow> Inl (e, st)
      | None \<Rightarrow>
          Inr (fold (\<lambda>statement. statement)
                 [connect Worker M_shutdown Executor M_shutdown,
                  connect Worker M_baseInitSuccess Worker M_initNode,
                  connect Worker M_baseInitFail Worker M_onBaseInitFail,
                  connect Worker M_initFail Worker M_onInitFail,
                  connect Executor M_initializeResult Worker M_initializeResult,
                  connect Executor M_initializeResult Worker M_initializeResult,
                  connect Executor M_shutdownResult Worker M_shutdownResult]
                 (st\<lparr>constructed := constructed st @ [Worker, Executor]\<rparr>)))"

definition NodeWorker_baseInitNode :: "emitter \<Rightarrow> env \<Rightarrow> state \<Rightarrow> state option" where
  "NodeWorker_baseInitNode em env st =
     (let st1 = qDebug [Str ''NodeController::baseInitNode() ''] st;
          (baseInit, st2) = node_baseInitialize env st1
      in if baseInit then em Worker M_baseInitSuccess NoArg st2
         else em Worker M_baseInitFail NoArg st2)"

definition NodeWorker_initNode :: "state \<Rightarrow> state" where
  "NodeWorker_initNode st = InitExecutor_initialize (qDebug [Str ''NodeController::initNode() ''] st)"

text \<open>
  A slot invoked with arguments of another signature does nothing; \<open>connect\<close> is
  type checked, so this does not happen.
\<close>

definition NodeWorker_initializeResult :: "emitter \<Rightarrow> arg \<Rightarrow> state \<Rightarrow> state option" where
  "NodeWorker_initializeResult em a st =
     (case a of
        InitResult success tip_info \<Rightarrow>
          (let st1 = qDebug [Str ''NodeController::initializeResult() => header_height:'',
                             Num (header_height tip_info)] st
           in if success then em Worker M_initSuccess NoArg st1
              else em Worker M_initFail NoArg st1)
      | _ \<Rightarrow> Some st)"

definition NodeWorker_onBaseInitFail :: "thread \<Rightarrow> state \<Rightarrow> state" where
  "NodeWorker_onBaseInitFail t st =
     QCoreApplication_exit 1 (qDebug [Str ''NodeController::onBaseInitFail() '', Tid t] st)"

definition NodeWorker_onInitFail :: "thread \<Rightarrow> state \<Rightarrow> state" where
  "NodeWorker_onInitFail t st =
     QCoreApplication_exit 1 (qDebug [Str ''NodeController::onInitFail() '', Tid t] st)"

definition NodeWorker_onShutdown :: "emitter \<Rightarrow> state \<Rightarrow> state option" where
  "NodeWorker_onShutdown em st = em Worker M_shutdown NoArg st"

text \<open>\<open>quitApplication\<close> sleeps three seconds first; no connection names it.\<close>

definition NodeWorker_quitApplication :: "state \<Rightarrow> state" where
  "NodeWorker_quitApplication st = QCoreApplication_exit 0 st"

definition NodeWorker_listCommands :: "emitter \<Rightarrow> env \<Rightarrow> thread \<Rightarrow> state \<Rightarrow> state option" where
  "NodeWorker_listCommands em env t st =
     (let st1 = qDebug [Str ''NodeController::listCommands()'', Tid t] st;
          (res, st2) = node_listRpcCommands env st1
      in em Worker M_commands (Commands res) st2)"

section \<open>\<open>BitcoinGUI\<close>\<close>

definition BitcoinGUI_BitcoinGUI :: "state \<Rightarrow> state" where
  "BitcoinGUI_BitcoinGUI st =
     connect Button M_clicked Window M_listCommands
       (st\<lparr>constructed := constructed st @ [Window, Button], m_allow_close := False\<rparr>)"

text \<open>
  \<open>closeEvent\<close> emits \<open>quitRequested\<close> and then accepts or ignores the event; the
  result tells which.
\<close>

definition BitcoinGUI_closeEvent :: "emitter \<Rightarrow> state \<Rightarrow> (bool \<times> state) option" where
  "BitcoinGUI_closeEvent em st =
     Option.bind (em Window M_quitRequested NoArg st)
       (\<lambda>st1. if m_allow_close st1 then Some (True, st1) else Some (False, st1))"

definition BitcoinGUI_doClose :: "state \<Rightarrow> state" where
  "BitcoinGUI_doClose st = QCoreApplication_exit 0 (st\<lparr>m_allow_close := True\<rparr>)"

definition BitcoinGUI_rcvCommands :: "arg \<Rightarrow> state \<Rightarrow> state" where
  "BitcoinGUI_rcvCommands a st =
     (case a of
        Commands commands \<Rightarrow> fold (\<lambda>cmd. qDebug [Str cmd]) commands st
      | _ \<Rightarrow> st)"

definition QMainWindow_show :: "state \<Rightarrow> state" where
  "QMainWindow_show st = st\<lparr>visible := True\<rparr>"

text \<open>
  A close request on the window (\<open>QWidget::close\<close>) sends it a close event; the
  window is hidden when the event comes back accepted and stays as it is otherwise.
  (Qt also ends the application when its last window has closed; here \<open>doClose\<close>
  has asked for that before a close event can be accepted.)
\<close>

definition QWidget_close :: "emitter \<Rightarrow> state \<Rightarrow> state option" where
  "QWidget_close em st =
     Option.bind (BitcoinGUI_closeEvent em st)
       (\<lambda>(accepted, st1).
          if accepted then Some (record_action CloseAccepted (st1\<lparr>visible := False\<rparr>))
          else Some (record_action CloseIgnored st1))"

section \<open>Slot invocation\<close>

definition signals :: "(obj \<times> member) list" where
  "signals =
     [(Button, M_clicked),
      (Window, M_quitRequested), (Window, M_listCommands),
      (Controller, M_initNode), (Controller, M_quitRequested),
      (Worker, M_commands), (Worker, M_baseInitSuccess), (Worker, M_baseInitFail),
      (Worker, M_initSuccess), (Worker, M_initFail), (Worker, M_shutdown),
      (Worker, M_shutdownResult),
      (Executor, M_initializeResult), (Executor, M_shutdownResult)]"

text \<open>
  The body of the member \<open>m\<close> of \<open>receiver\<close>, run in thread \<open>t\<close>. A signal used as
  the target of a connection is emitted again, from its own object.
\<close>

definition run_slot :: "emitter \<Rightarrow> env \<Rightarrow> thread \<Rightarrow> obj \<Rightarrow> member \<Rightarrow> arg \<Rightarrow> state \<Rightarrow> state option" where
  "run_slot em env t receiver m a st =
     (if (receiver, m) \<in> set signals then em receiver m a st
      else if receiver = Worker \<and> m = M_baseInitNode then NodeWorker_baseInitNode em env st
      else if receiver = Worker \<and> m = M_initNode then Some (NodeWorker_initNode st)
      else if receiver = Worker \<and> m = M_initializeResult then NodeWorker_initializeResult em a st
      else if receiver = Worker \<and> m = M_onBaseInitFail then Some (NodeWorker_onBaseInitFail t st)
      else if receiver = Worker \<and> m = M_onInitFail then Some (NodeWorker_onInitFail t st)
      else if receiver = Worker \<and> m = M_onShutdown then NodeWorker_onShutdown em st
      else if receiver = Worker \<and> m = M_quitApplication then Some (NodeWorker_quitApplication st)
      else if receiver = Worker \<and> m = M_listCommands then NodeWorker_listCommands em env t st
      else if receiver = Window \<and> m = M_rcvCommands then Some (BitcoinGUI_rcvCommands a st)
      else if receiver = Window \<and> m = M_doClose then Some (BitcoinGUI_doClose st)
      else if receiver = Window \<and> m = M_show then Some (QMainWindow_show st)
      else if receiver = Executor \<and> m = M_shutdown then Some (InitExecutor_shutdown st)
      else Some st)"

lemma activate_mono [partial_function_mono]:
  assumes "\<And>receiver slot a st. mono_option (\<lambda>f. F f receiver slot a st)"
  shows "mono_option (\<lambda>f. activate (F f) t cs a st)"
proof (induction cs arbitrary: st)
  case Nil
  show ?case by (simp add: option.const_mono)
next
  case (Cons c cs)
  obtain sender sig receiver slot where c: "c = (sender, sig, receiver, slot)"
    by (cases c) auto
  show ?case
    unfolding c activate.simps
    by (intro partial_function_mono assms Cons.IH)
qed

lemma emit_mono [partial_function_mono]:
  assumes "\<And>receiver slot a st. mono_option (\<lambda>f. F f receiver slot a st)"
  shows "mono_option (\<lambda>f. emit (F f) t sender sig a st)"
  unfolding emit_def by (intro activate_mono assms)

lemma run_slot_mono [partial_function_mono]:
  assumes "\<And>sender sig a st. mono_option (\<lambda>f. E f sender sig a st)"
  shows "mono_option (\<lambda>f. run_slot (E f) env t receiver m a st)"
  unfolding run_slot_def NodeWorker_baseInitNode_def NodeWorker_initializeResult_def
    NodeWorker_onShutdown_def NodeWorker_listCommands_def Let_def case_prod_beta
  by (cases a) (auto intro!: partial_function_mono assms)

text \<open>
  Invoking a member in thread \<open>t\<close>: the invocation is recorded and the body runs, with
  an emit that calls the slots of the same thread through \<open>invoke\<close> again. The result
  is \<open>None\<close> when that recursion does not end.
\<close>

partial_function (option) invoke :: "env \<Rightarrow> thread \<Rightarrow> obj \<Rightarrow> member \<Rightarrow> arg \<Rightarrow> state \<Rightarrow> state option" where
  "invoke env t receiver m a st =
     run_slot (emit (invoke env t) t) env t receiver m a (record_action (Call receiver m a) st)"

section \<open>\<open>GuiController\<close>\<close>

text \<open>
  The constructor runs in the GUI thread. An exception thrown by one of the calls it
  makes leaves the constructor at that point (\<open>Inl\<close>, with the state reached).
\<close>

definition GuiController_GuiController ::
  "emitter \<Rightarrow> env \<Rightarrow> state \<Rightarrow> ((exn \<times> state) + state) option" where
  "GuiController_GuiController em env st =
     (let st1 = qDebug [Str ''GuiController::GuiController()'', Tid GuiThread]
                  (st\<lparr>constructed := constructed st @ [Controller]\<rparr>)
      in case InitConfig env of
           Inl e \<Rightarrow> Some (Inl (e, st1))
         | Inr error \<Rightarrow>
             (let st2 = (case error of
                           Some message \<Rightarrow>
                             QCoreApplication_exit 1
                               (qCritical [Str ''Fail to open bitcoin.conf:'', Str message] st1)
                         | None \<Rightarrow> st1)
              in case InitLogging env of
                   Some e \<Rightarrow> Some (Inl (e, st2))
                 | None \<Rightarrow>
                     (let st3 = record_action (Called ''InitLogging'') st2
                      in case InitParameterInteraction env of
                           Some e \<Rightarrow> Some (Inl (e, st3))
                         | None \<Rightarrow>
                             (let st4 = record_action (Called ''InitParameterInteraction'') st3;
                                  st5 = BitcoinGUI_BitcoinGUI st4
                              in case NodeWorker_NodeWorker env st5 of
                                   Inl (e, st6) \<Rightarrow> Some (Inl (e, st6))
                                 | Inr st6 \<Rightarrow>
                                     (let st7 =
                                            fold (\<lambda>statement. statement)
                                              [connect Window M_listCommands Worker M_listCommands,
                                               connect Worker M_commands Window M_rcvCommands,
                                               connect Window M_quitRequested Worker M_onShutdown,
                                               connect Worker M_shutdownResult Window M_doClose,
                                               connect Controller M_initNode Worker M_baseInitNode,
                                               connect Worker M_initSuccess Window M_show]
                                              st6;
                                          st8 = moveToThread Worker NodeThread st7;
                                          st9 = st8\<lparr>node_thread_started := True\<rparr>
                                      in Option.bind (em Controller M_initNode NoArg st9)
                                           (\<lambda>st10. Some (Inr
                                              (qDebug [Str ''GuiController::GuiController() ended'',
                                                       Tid GuiThread] st10))))))))"

section \<open>Threads and the event loop\<close>

text \<open>
  A thread's event loop takes the first event of its queue and runs it to the end. The
  worker's thread does so once it has been started.
\<close>

definition dispatch :: "env \<Rightarrow> thread \<Rightarrow> state \<Rightarrow> state option" where
  "dispatch env t st =
     (case queues st t of
        [] \<Rightarrow> Some st
      | e # es \<Rightarrow>
          (let st1 = st\<lparr>queues := (queues st)(t := es)\<rparr>
           in case e of
                MetaCall receiver m a \<Rightarrow> invoke env t receiver m a st1
              | InitializeJob \<Rightarrow> run_InitializeJob (emit (invoke env t) t) env st1
              | ShutdownJob \<Rightarrow> run_ShutdownJob (emit (invoke env t) t) st1))"

text \<open>
  What can happen next while the GUI thread is inside \<open>QApplication::exec()\<close>: one of
  the threads handles its next event, the user clicks the button or asks the window to
  close (both handled in the GUI thread), or the main loop tests whether
  \<open>exit\<close> has been called. A run is a list of these, so a property of all runs
  holds for every order in which the threads take their turns.
\<close>

datatype input = Run thread | Click | CloseRequest | LoopCondition

definition step :: "env \<Rightarrow> input \<Rightarrow> state \<Rightarrow> state option" where
  "step env i st =
     (case i of
        Run t \<Rightarrow> (if t = NodeThread \<and> \<not> node_thread_started st then Some st else dispatch env t st)
      | Click \<Rightarrow> emit (invoke env GuiThread) GuiThread Button M_clicked NoArg st
      | CloseRequest \<Rightarrow> QWidget_close (emit (invoke env GuiThread) GuiThread) st
      | LoopCondition \<Rightarrow> Some st)"

text \<open>
  The main event loop. It returns the code given to \<open>exit\<close> when it finds, at
  \<open>LoopCondition\<close>, that \<open>exit\<close> has been called; the result \<open>None\<close> in the first
  component says that the loop is still running when the inputs end.
\<close>

fun event_loop :: "env \<Rightarrow> input list \<Rightarrow> state \<Rightarrow> (int option \<times> state) option" where
  "event_loop env [] st = Some (None, st)"
| "event_loop env (i # ins) st =
     (if i = LoopCondition \<and> exit_code st \<noteq> None
      then Some (exit_code st, st\<lparr>in_exec := False\<rparr>)
      else Option.bind (step env i st) (event_loop env ins))"

definition QApplication_exec :: "env \<Rightarrow> input list \<Rightarrow> state \<Rightarrow> (int option \<times> state) option" where
  "QApplication_exec env ins st = event_loop env ins (st\<lparr>in_exec := True, exit_code := None\<rparr>)"

section \<open>\<open>GuiMain\<close>\<close>

definition EXIT_SUCCESS :: int where
  "EXIT_SUCCESS = 0"

definition EXIT_FAILURE :: int where
  "EXIT_FAILURE = 1"

text \<open>
  The two \<open>catch\<close> clauses of \<open>GuiMain\<close>: a \<open>std::exception\<close> is logged with
  its \<open>what()\<close>, anything else as a runaway exception.
\<close>

fun log_exception :: "exn \<Rightarrow> state \<Rightarrow> state" where
  "log_exception (StdException what) st = qCritical [Str what] st"
| "log_exception OtherException st = qCritical [Str ''Runaway Exception''] st"

text \<open>
  \<open>GuiMain\<close>, given the surroundings and what happens while the event loop runs. The
  first component of the result is the value \<open>GuiMain\<close> returns, \<open>None\<close> while it
  has not returned.
\<close>

definition GuiMain :: "env \<Rightarrow> input list \<Rightarrow> (int option \<times> state) option" where
  "GuiMain env ins =
     (let st0 = record_action (Called ''SetupServerArgs'')
                  (record_action (Called ''QApplication'')
                    (record_action (Called ''SetupEnvironment'') initial_state));
          (ok, error) = ParseParameters env
      in if \<not> ok then Some (Some EXIT_FAILURE, qCritical [Str ''fail to parse args: '', Str error] st0)
         else
           Option.bind (GuiController_GuiController (emit (invoke env GuiThread) GuiThread) env st0)
             (\<lambda>r. case r of
                Inl (e, st1) \<Rightarrow> Some (Some EXIT_FAILURE, log_exception e st1)
              | Inr st1 \<Rightarrow>
                  Option.bind (QApplication_exec env ins st1)
                    (\<lambda>(rc, st2). case rc of
                       None \<Rightarrow> Some (None, st2)
                     | Some c \<Rightarrow> Some (Some EXIT_SUCCESS, st2))))"

section \<open>Reachable states and runs\<close>

subsection \<open>The state the constructor leaves\<close>

text \<open>
  The connections the two constructors and the window's constructor make, in the order
  they make them, and the state \<open>GuiMain\<close> has reached when it calls the constructor
  of the controller.
\<close>

definition wired :: "connection list" where
  "wired =
     [(Button, M_clicked, Window, M_listCommands),
      (Worker, M_shutdown, Executor, M_shutdown),
      (Worker, M_baseInitSuccess, Worker, M_initNode),
      (Worker, M_baseInitFail, Worker, M_onBaseInitFail),
      (Worker, M_initFail, Worker, M_onInitFail),
      (Executor, M_initializeResult, Worker, M_initializeResult),
      (Executor, M_initializeResult, Worker, M_initializeResult),
      (Executor, M_shutdownResult, Worker, M_shutdownResult),
      (Window, M_listCommands, Worker, M_listCommands),
      (Worker, M_commands, Window, M_rcvCommands),
      (Window, M_quitRequested, Worker, M_onShutdown),
      (Worker, M_shutdownResult, Window, M_doClose),
      (Controller, M_initNode, Worker, M_baseInitNode),
      (Worker, M_initSuccess, Window, M_show)]"

definition startup :: state where
  "startup = record_action (Called ''SetupServerArgs'')
               (record_action (Called ''QApplication'')
                 (record_action (Called ''SetupEnvironment'') initial_state))"

text \<open>
  What has been recorded when the constructor returns, and the state in which the event
  loop starts: every object constructed and connected, the worker in its thread with
  \<open>baseInitNode\<close> waiting in its queue.
\<close>

definition ctor_trace :: "env \<Rightarrow> action list" where
  "ctor_trace env =
     [Called ''SetupEnvironment'', Called ''QApplication'', Called ''SetupServerArgs'',
      Log Debug [Str ''GuiController::GuiController()'', Tid GuiThread]] @
     (case InitConfig env of
        Inr (Some message) \<Rightarrow> [Log Critical [Str ''Fail to open bitcoin.conf:'', Str message], AppExit 1]
      | _ \<Rightarrow> []) @
     [Called ''InitLogging'', Called ''InitParameterInteraction'', Emit Controller M_initNode NoArg,
      Log Debug [Str ''GuiController::GuiController() ended'', Tid GuiThread]]"

definition loop_entry :: "env \<Rightarrow> state" where
  "loop_entry env =
     initial_state\<lparr>constructed := [Controller, Window, Button, Worker, Executor],
       connections := wired,
       affinity := (\<lambda>_. GuiThread)(Worker := NodeThread),
       queues := (\<lambda>_. [])(NodeThread := [MetaCall Worker M_baseInitNode NoArg]),
       node_thread_started := True, in_exec := True,
       trace := ctor_trace env\<rparr>"

text \<open>
  When \<open>GuiMain\<close> returns before the event loop has started (the parameters do not
  parse, or the constructor throws), nothing but log lines, library calls and calls of
  \<open>exit\<close> has been recorded, and nothing has been queued or shown.
\<close>

definition quiet_action :: "action \<Rightarrow> bool" where
  "quiet_action a = (case a of Log s items \<Rightarrow> True | Called f \<Rightarrow> True | AppExit c \<Rightarrow> True | _ \<Rightarrow> False)"

definition early :: "state \<Rightarrow> bool" where
  "early st =
     (list_all quiet_action (trace st) \<and> \<not> m_allow_close st \<and> \<not> visible st \<and>
      queues st = (\<lambda>_. []) \<and> n_baseInitialize st = 0 \<and> n_appInitMain st = 0 \<and>
      n_listRpcCommands st = 0)"

subsection \<open>The states of the event loop\<close>

text \<open>
  While the event loop runs the connections and the thread of every object stay as the
  constructor left them, and each queue holds only the events that the connections can
  put there.
\<close>

definition gui_event :: "event \<Rightarrow> bool" where
  "gui_event e =
     (case e of
        MetaCall r m a \<Rightarrow>
          (r = Window \<and> m = M_show \<and> a = NoArg) \<or>
          (r = Window \<and> m = M_doClose \<and> a = NoArg) \<or>
          (r = Executor \<and> m = M_shutdown \<and> a = NoArg) \<or>
          (r = Window \<and> m = M_rcvCommands \<and> (case a of Commands cs \<Rightarrow> True | _ \<Rightarrow> False))
      | _ \<Rightarrow> False)"

definition node_event :: "event \<Rightarrow> bool" where
  "node_event e =
     (case e of
        MetaCall r m a \<Rightarrow>
          r = Worker \<and>
          ((m = M_baseInitNode \<and> a = NoArg) \<or>
           (m = M_listCommands \<and> a = NoArg) \<or>
           (m = M_onShutdown \<and> a = NoArg) \<or>
           (m = M_shutdownResult \<and> a = NoArg) \<or>
           (m = M_initializeResult \<and> (case a of InitResult b ti \<Rightarrow> True | _ \<Rightarrow> False)))
      | _ \<Rightarrow> False)"

definition executor_event :: "event \<Rightarrow> bool" where
  "executor_event e = (e = InitializeJob \<or> e = ShutdownJob)"

definition wired_state :: "state \<Rightarrow> bool" where
  "wired_state st =
     (connections st = wired \<and>
      affinity st = (\<lambda>_. GuiThread)(Worker := NodeThread) \<and>
      in_exec st \<and>
      node_thread_started st \<and>
      list_all gui_event (queues st GuiThread) \<and>
      list_all node_event (queues st NodeThread) \<and>
      list_all executor_event (queues st ExecutorThread))"

text \<open>The two ways a step changes the state besides posting an event.\<close>

definition record_actions :: "action list \<Rightarrow> state \<Rightarrow> state" where
  "record_actions as st = st\<lparr>trace := trace st @ as\<rparr>"

definition pop :: "thread \<Rightarrow> state \<Rightarrow> state" where
  "pop t st = st\<lparr>queues := (queues st)(t := tl (queues st t))\<rparr>"

subsection \<open>Order in a trace\<close>

text \<open>
  \<open>only_after P Q tr\<close>: in the trace \<open>tr\<close> a \<open>Q\<close> action occurs only after a
  \<open>P\<close> action has occurred. \<open>never_after P Q tr\<close>: no \<open>Q\<close> action occurs after
  a \<open>P\<close> action.
\<close>

fun only_after :: "(action \<Rightarrow> bool) \<Rightarrow> (action \<Rightarrow> bool) \<Rightarrow> action list \<Rightarrow> bool" where
  "only_after P Q [] = True"
| "only_after P Q (a # tr) = (\<not> Q a \<and> (P a \<or> only_after P Q tr))"

fun never_after :: "(action \<Rightarrow> bool) \<Rightarrow> (action \<Rightarrow> bool) \<Rightarrow> action list \<Rightarrow> bool" where
  "never_after P Q [] = True"
| "never_after P Q (a # tr) = (if P a then list_all (\<lambda>x. \<not> Q x) tr else never_after P Q tr)"

subsection \<open>Closing the window\<close>

text \<open>
  An invocation of \<open>doClose\<close>, and the signal by which the worker acknowledges the
  shutdown. \<open>exit_follows_doClose\<close>: each invocation of \<open>doClose\<close> is followed at
  once by a call of \<open>exit(0)\<close>.
\<close>

definition is_doClose :: "action \<Rightarrow> bool" where
  "is_doClose a = (case a of Call r m x \<Rightarrow> r = Window \<and> m = M_doClose | _ \<Rightarrow> False)"

definition is_ack :: "action \<Rightarrow> bool" where
  "is_ack a = (a = Emit Worker M_shutdownResult NoArg)"

fun exit_follows_doClose :: "action list \<Rightarrow> bool" where
  "exit_follows_doClose [] = True"
| "exit_follows_doClose (a # tr) =
     ((if is_doClose a then (case tr of [] \<Rightarrow> False | b # rest \<Rightarrow> b = AppExit 0) else True) \<and>
      exit_follows_doClose tr)"

text \<open>The invariants of the event loop behind the claims on \<open>m_allow_close\<close> and on the shutdown.\<close>

definition close_discipline :: "state \<Rightarrow> bool" where
  "close_discipline st =
     ((m_allow_close st \<longleftrightarrow> list_ex is_doClose (trace st)) \<and>
      only_after is_doClose (\<lambda>a. a = CloseAccepted) (trace st) \<and>
      never_after is_doClose (\<lambda>a. a = CloseIgnored) (trace st))"

definition shutdown_handshake :: "state \<Rightarrow> bool" where
  "shutdown_handshake st =
     (only_after is_ack (\<lambda>a. a = CloseAccepted) (trace st) \<and>
      only_after is_ack is_doClose (trace st) \<and>
      exit_follows_doClose (trace st) \<and>
      (MetaCall Window M_doClose NoArg \<in> set (queues st GuiThread) \<longrightarrow> list_ex is_ack (trace st)) \<and>
      (m_allow_close st \<longrightarrow> list_ex is_ack (trace st)))"

subsection \<open>Initialisation\<close>

text \<open>
  Each phase is tried once: \<open>baseInitNode\<close> is queued once and runs at most once,
  and the executor's work is scheduled only by it; so the answers recorded are the first
  answers of the node.
\<close>

definition single_attempt :: "env \<Rightarrow> state \<Rightarrow> bool" where
  "single_attempt env st =
     (count_list (queues st NodeThread) (MetaCall Worker M_baseInitNode NoArg) + n_baseInitialize st \<le> 1 \<and>
      count_list (queues st ExecutorThread) InitializeJob + n_appInitMain st \<le> n_baseInitialize st \<and>
      (\<forall>b. BaseInitialize b \<in> set (trace st) \<longrightarrow> b = baseInitialize env 0) \<and>
      (\<forall>b. AppInitMain b \<in> set (trace st) \<longrightarrow> b = fst (appInitMain env 0)))"

definition two_phases :: "state \<Rightarrow> bool" where
  "two_phases st = only_after (\<lambda>a. a = BaseInitialize True) (\<lambda>a. a = ExecutorInitialize) (trace st)"

text \<open>An invocation of \<open>QMainWindow::show\<close> on the window, and the worker's \<open>initSuccess\<close>.\<close>

definition is_show :: "action \<Rightarrow> bool" where
  "is_show a = (case a of Call r m x \<Rightarrow> r = Window \<and> m = M_show | _ \<Rightarrow> False)"

definition is_initSuccess :: "action \<Rightarrow> bool" where
  "is_initSuccess a = (a = Emit Worker M_initSuccess NoArg)"

definition shown_after_success :: "state \<Rightarrow> bool" where
  "shown_after_success st =
     (only_after is_initSuccess is_show (trace st) \<and>
      (MetaCall Window M_show NoArg \<in> set (queues st GuiThread) \<longrightarrow> list_ex is_initSuccess (trace st)) \<and>
      (visible st \<longrightarrow> list_ex is_show (trace st)) \<and>
      (list_ex is_initSuccess (trace st) \<longrightarrow> AppInitMain True \<in> set (trace st)) \<and>
      (\<forall>tip. MetaCall Worker M_initializeResult (InitResult True tip) \<in> set (queues st NodeThread) \<longrightarrow>
         AppInitMain True \<in> set (trace st)))"

text \<open>
  A result with success flag \<open>b\<close>: emitted by the executor, waiting in the worker's
  queue, handled by \<open>NodeWorker::initializeResult\<close>.
\<close>

definition is_result_emitted :: "bool \<Rightarrow> action \<Rightarrow> bool" where
  "is_result_emitted b a =
     (case a of
        Emit s m x \<Rightarrow> s = Executor \<and> m = M_initializeResult \<and>
          (case x of InitResult success tip \<Rightarrow> success = b | _ \<Rightarrow> False)
      | _ \<Rightarrow> False)"

definition is_result_event :: "bool \<Rightarrow> event \<Rightarrow> bool" where
  "is_result_event b e =
     (case e of
        MetaCall r m x \<Rightarrow> r = Worker \<and> m = M_initializeResult \<and>
          (case x of InitResult success tip \<Rightarrow> success = b | _ \<Rightarrow> False)
      | _ \<Rightarrow> False)"

definition is_result_handled :: "bool \<Rightarrow> action \<Rightarrow> bool" where
  "is_result_handled b a =
     (case a of
        Call r m x \<Rightarrow> r = Worker \<and> m = M_initializeResult \<and>
          (case x of InitResult success tip \<Rightarrow> success = b | _ \<Rightarrow> False)
      | _ \<Rightarrow> False)"

definition delivered_twice :: "state \<Rightarrow> bool" where
  "delivered_twice st =
     (length (filter (is_result_handled True) (trace st)) +
        length (filter (is_result_event True) (queues st NodeThread)) =
        2 * length (filter (is_result_emitted True) (trace st)) \<and>
      length (filter (is_result_handled False) (trace st)) +
        length (filter (is_result_event False) (queues st NodeThread)) =
        2 * length (filter (is_result_emitted False) (trace st)) \<and>
      length (filter is_initSuccess (trace st)) = length (filter (is_result_handled True) (trace st)) \<and>
      length (filter is_show (trace st)) +
        length (filter (\<lambda>e. e = MetaCall Window M_show NoArg) (queues st GuiThread)) =
        length (filter is_initSuccess (trace st)) \<and>
      length (filter (\<lambda>a. a = Emit Worker M_initFail NoArg) (trace st)) =
        length (filter (is_result_handled False) (trace st)) \<and>
      length (filter (\<lambda>a. a = Call Worker M_onInitFail NoArg) (trace st)) =
        length (filter (is_result_handled False) (trace st)))"

subsection \<open>The list of commands\<close>

text \<open>
  Read off a trace: the lists \<open>rcvCommands\<close> has been invoked with, the lists
  \<open>listRpcCommands()\<close> has returned, and the number of clicks; read off a queue:
  the lists on their way to the window, and the number of queries on their way to the
  worker.
\<close>

definition received_by :: "action \<Rightarrow> string list list" where
  "received_by a =
     (case a of
        Call r m x \<Rightarrow>
          (if r = Window \<and> m = M_rcvCommands then (case x of Commands cs \<Rightarrow> [cs] | _ \<Rightarrow> []) else [])
      | _ \<Rightarrow> [])"

definition received :: "action list \<Rightarrow> string list list" where
  "received tr = concat (map received_by tr)"

definition queried :: "action list \<Rightarrow> string list list" where
  "queried tr = concat (map (\<lambda>a. case a of ListRpcCommands r \<Rightarrow> [r] | _ \<Rightarrow> []) tr)"

definition clicks :: "action list \<Rightarrow> nat" where
  "clicks tr = length (filter (\<lambda>a. a = Emit Button M_clicked NoArg) tr)"

definition delivered_by :: "event \<Rightarrow> string list list" where
  "delivered_by e = (case e of MetaCall r m x \<Rightarrow> received_by (Call r m x) | _ \<Rightarrow> [])"

definition pending_commands :: "event list \<Rightarrow> string list list" where
  "pending_commands q = concat (map delivered_by q)"

definition pending_queries :: "event list \<Rightarrow> nat" where
  "pending_queries q = length (filter (\<lambda>e. e = MetaCall Worker M_listCommands NoArg) q)"

text \<open>
  \<open>logs_ok tr\<close>: each invocation of \<open>rcvCommands\<close> in \<open>tr\<close> is followed by one
  log line for each string of its list, in the order of the list, and the action after
  these is not a log line.
\<close>

definition begins_with_log :: "action list \<Rightarrow> bool" where
  "begins_with_log tr = (case tr of Log s items # rest \<Rightarrow> True | _ \<Rightarrow> False)"

fun logs_ok :: "action list \<Rightarrow> bool" where
  "logs_ok [] = True"
| "logs_ok (a # tr) =
     (list_all (\<lambda>cs. take (length cs) tr = map (\<lambda>cmd. Log Debug [Str cmd]) cs \<and>
                      \<not> begins_with_log (drop (length cs) tr)) (received_by a) \<and>
      logs_ok tr)"

definition commands_relayed :: "env \<Rightarrow> state \<Rightarrow> bool" where
  "commands_relayed env st =
     (logs_ok (trace st) \<and>
      queried (trace st) = map (listRpcCommands env) [0..<n_listRpcCommands st] \<and>
      n_listRpcCommands st + pending_queries (queues st NodeThread) = clicks (trace st) \<and>
      received (trace st) @ pending_commands (queues st GuiThread) = queried (trace st))"

text \<open>
  The state the constructor returns when the configuration file does not parse, without
  the two actions that the failure adds.
\<close>

definition without_config_failure :: "string \<Rightarrow> state \<Rightarrow> state" where
  "without_config_failure message st =
     st\<lparr>trace := filter (\<lambda>a. a \<noteq> Log Critical [Str ''Fail to open bitcoin.conf:'', Str message] \<and>
                             a \<noteq> AppExit 1) (trace st)\<rparr>"

subsection \<open>Example runs\<close>

text \<open>
  Surroundings in which everything succeeds, and a session: the node initialises and the
  window is shown (\<open>session_started\<close>); the user clicks the button and the commands
  are logged; the user asks the window to close, the request is ignored, the shutdown
  goes round and \<open>doClose\<close> ends the event loop.
\<close>

definition env_example :: env where
  "env_example =
     \<lparr>ParseParameters = (True, ''''), InitConfig = Inr None, InitLogging = None,
      InitParameterInteraction = None, MakeNode = None, baseInitialize = (\<lambda>n. True),
      appInitMain = (\<lambda>n. (True, \<lparr>header_height = 7\<rparr>)),
      listRpcCommands = (\<lambda>n. if n = 0 then [''help'', ''stop''] else [''uptime''])\<rparr>"

definition session_started :: "input list" where
  "session_started =
     [Run NodeThread, Run ExecutorThread, Run NodeThread, Run NodeThread, Run GuiThread, Run GuiThread]"

definition session_example :: "input list" where
  "session_example =
     [Run NodeThread, Run ExecutorThread, Run NodeThread, Run NodeThread, Run GuiThread, Run GuiThread,
      Click, Run NodeThread, Run GuiThread,
      CloseRequest, Run NodeThread, Run GuiThread, Run ExecutorThread, Run NodeThread, Run GuiThread,
      LoopCondition]"

definition session_trace :: "action list" where
  "session_trace =
   [Call Worker M_baseInitNode NoArg,
    Log Debug [Str ''NodeController::baseInitNode() ''],
    BaseInitialize True, Emit Worker M_baseInitSuccess NoArg,
    Call Worker M_initNode NoArg,
    Log Debug [Str ''NodeController::initNode() ''], ExecutorInitialize,
    AppInitMain True,
    Emit Executor M_initializeResult (InitResult True \<lparr>header_height = 7\<rparr>),
    Call Worker M_initializeResult (InitResult True \<lparr>header_height = 7\<rparr>),
    Log Debug [Str ''NodeController::initializeResult() => header_height:'', Num 7],
    Emit Worker M_initSuccess NoArg,
    Call Worker M_initializeResult (InitResult True \<lparr>header_height = 7\<rparr>),
    Log Debug [Str ''NodeController::initializeResult() => header_height:'', Num 7],
    Emit Worker M_initSuccess NoArg, Call Window M_show NoArg,
    Call Window M_show NoArg, Emit Button M_clicked NoArg,
    Call Window M_listCommands NoArg, Emit Window M_listCommands NoArg,
    Call Worker M_listCommands NoArg,
    Log Debug [Str ''NodeController::listCommands()'', Tid NodeThread],
    ListRpcCommands [''help'', ''stop''],
    Emit Worker M_commands (Commands [''help'', ''stop'']),
    Call Window M_rcvCommands (Commands [''help'', ''stop'']),
    Log Debug [Str ''help''], Log Debug [Str ''stop''],
    Emit Window M_quitRequested NoArg, CloseIgnored,
    Call Worker M_onShutdown NoArg, Emit Worker M_shutdown NoArg,
    Call Executor M_shutdown NoArg, AppShutdown,
    Emit Executor M_shutdownResult NoArg,
    Call Worker M_shutdownResult NoArg, Emit Worker M_shutdownResult NoArg,
    Call Window M_doClose NoArg, AppExit 0]"

definition started_final :: state where
  "started_final =
     (loop_entry env_example)\<lparr>visible := True, queues := (\<lambda>_. []),
        n_baseInitialize := 1, n_appInitMain := 1,
        trace := ctor_trace env_example @ take 17 session_trace\<rparr>"

definition session_final :: state where
  "session_final =
     (loop_entry env_example)\<lparr>m_allow_close := True, visible := True,
        queues := (\<lambda>_. []), in_exec := False, exit_code := Some 0,
        n_baseInitialize := 1, n_appInitMain := 1, n_listRpcCommands := 1,
        trace := ctor_trace env_example @ session_trace\<rparr>"

text \<open>The same session with a second close request after \<open>doClose\<close>, which is accepted.\<close>

definition session_closed_twice :: "input list" where
  "session_closed_twice = butlast session_example @ [CloseRequest, LoopCondition]"

text \<open>
  A run in which the full initialisation reports failure and the worker handles both
  deliveries of the result.
\<close>

definition failing_init_trace :: "action list" where
  "failing_init_trace =
     [Call Worker M_baseInitNode NoArg, Log Debug [Str ''NodeController::baseInitNode() ''],
      BaseInitialize True, Emit Worker M_baseInitSuccess NoArg, Call Worker M_initNode NoArg,
      Log Debug [Str ''NodeController::initNode() ''], ExecutorInitialize,
      AppInitMain False,
      Emit Executor M_initializeResult (InitResult False \<lparr>header_height = 0\<rparr>),
      Call Worker M_initializeResult (InitResult False \<lparr>header_height = 0\<rparr>),
      Log Debug [Str ''NodeController::initializeResult() => header_height:'', Num 0],
      Emit Worker M_initFail NoArg, Call Worker M_onInitFail NoArg,
      Log Debug [Str ''NodeController::onInitFail() '', Tid NodeThread], AppExit 1,
      Call Worker M_initializeResult (InitResult False \<lparr>header_height = 0\<rparr>),
      Log Debug [Str ''NodeController::initializeResult() => header_height:'', Num 0],
      Emit Worker M_initFail NoArg, Call Worker M_onInitFail NoArg,
      Log Debug [Str ''NodeController::onInitFail() '', Tid NodeThread], AppExit 1]"

definition failing_init_final :: state where
  "failing_init_final =
     (loop_entry env_example)\<lparr>queues := (\<lambda>_. []), exit_code := Some 1,
        n_baseInitialize := 1, n_appInitMain := 1,
        trace := ctor_trace env_example @ failing_init_trace\<rparr>"

lemmas model_defs = run_slot_def emit_def connect_def postEvent_def
  moveToThread_def record_action_def qDebug_def qCritical_def QCoreApplication_exit_def
  node_baseInitialize_def node_listRpcCommands_def InitExecutor_initialize_def InitExecutor_shutdown_def
  run_InitializeJob_def run_ShutdownJob_def NodeWorker_baseInitNode_def NodeWorker_initNode_def
  NodeWorker_initializeResult_def NodeWorker_onBaseInitFail_def NodeWorker_onInitFail_def
  NodeWorker_onShutdown_def NodeWorker_quitApplication_def NodeWorker_listCommands_def
  BitcoinGUI_closeEvent_def BitcoinGUI_doClose_def BitcoinGUI_rcvCommands_def QMainWindow_show_def
  QWidget_close_def signals_def invoke.simps record_actions_def pop_def wired_def Let_def

lemmas step_defs = step_def dispatch_def wired_state_def model_defs

lemma step_window_show:
  assumes "wired_state st" "queues st GuiThread = MetaCall Window M_show NoArg # es"
  shows "step env (Run GuiThread) st =
    Some (record_actions [Call Window M_show NoArg] (pop GuiThread st)\<lparr>visible := True\<rparr>)"
  using assms by (simp add: step_defs)

lemma step_rcvCommands:
  assumes "wired_state st" "queues st GuiThread = MetaCall Window M_rcvCommands (Commands cs) # es"
  shows "step env (Run GuiThread) st =
    Some (record_actions (Call Window M_rcvCommands (Commands cs) # map (\<lambda>cmd. Log Debug [Str cmd]) cs)
            (pop GuiThread st))"
proof -
  have "fold (\<lambda>cmd. qDebug [Str cmd]) cs s = record_actions (map (\<lambda>cmd. Log Debug [Str cmd]) cs) s" for s
    by (induction cs arbitrary: s) (simp_all add: record_actions_def qDebug_def record_action_def)
  then show ?thesis
    using assms by (simp add: step_defs del: fold_simps)
qed

lemma step_doClose:
  assumes "wired_state st" "queues st GuiThread = MetaCall Window M_doClose NoArg # es"
  shows "step env (Run GuiThread) st =
    Some (record_actions [Call Window M_doClose NoArg, AppExit 0]
            (pop GuiThread st)\<lparr>m_allow_close := True, exit_code := Some 0\<rparr>)"
  using assms by (simp add: step_defs)

lemma step_executor_shutdown:
  assumes "wired_state st" "queues st GuiThread = MetaCall Executor M_shutdown NoArg # es"
  shows "step env (Run GuiThread) st =
    Some (postEvent ExecutorThread ShutdownJob
            (record_actions [Call Executor M_shutdown NoArg] (pop GuiThread st)))"
  using assms by (simp add: step_defs)

lemma step_baseInitNode:
  assumes "wired_state st" "queues st NodeThread = MetaCall Worker M_baseInitNode NoArg # es"
  shows "step env (Run NodeThread) st =
    Some (if baseInitialize env (n_baseInitialize st)
      then postEvent ExecutorThread InitializeJob
        (record_actions [Call Worker M_baseInitNode NoArg, Log Debug [Str ''NodeController::baseInitNode() ''],
           BaseInitialize True, Emit Worker M_baseInitSuccess NoArg, Call Worker M_initNode NoArg,
           Log Debug [Str ''NodeController::initNode() ''], ExecutorInitialize]
          (pop NodeThread st\<lparr>n_baseInitialize := Suc (n_baseInitialize st)\<rparr>))
      else
        (record_actions [Call Worker M_baseInitNode NoArg, Log Debug [Str ''NodeController::baseInitNode() ''],
           BaseInitialize False, Emit Worker M_baseInitFail NoArg, Call Worker M_onBaseInitFail NoArg,
           Log Debug [Str ''NodeController::onBaseInitFail() '', Tid NodeThread], AppExit 1]
          (pop NodeThread st\<lparr>n_baseInitialize := Suc (n_baseInitialize st), exit_code := Some 1\<rparr>)))"
  using assms by (simp add: step_defs)

lemma step_listCommands:
  assumes "wired_state st" "queues st NodeThread = MetaCall Worker M_listCommands NoArg # es"
  shows "step env (Run NodeThread) st =
    Some (postEvent GuiThread (MetaCall Window M_rcvCommands (Commands (listRpcCommands env (n_listRpcCommands st))))
      (record_actions [Call Worker M_listCommands NoArg,
           Log Debug [Str ''NodeController::listCommands()'', Tid NodeThread],
           ListRpcCommands (listRpcCommands env (n_listRpcCommands st)),
           Emit Worker M_commands (Commands (listRpcCommands env (n_listRpcCommands st)))]
        (pop NodeThread st\<lparr>n_listRpcCommands := Suc (n_listRpcCommands st)\<rparr>)))"
  using assms by (simp add: step_defs)

lemma step_onShutdown:
  assumes "wired_state st" "queues st NodeThread = MetaCall Worker M_onShutdown NoArg # es"
  shows "step env (Run NodeThread) st =
    Some (postEvent GuiThread (MetaCall Executor M_shutdown NoArg)
      (record_actions [Call Worker M_onShutdown NoArg, Emit Worker M_shutdown NoArg] (pop NodeThread st)))"
  using assms by (simp add: step_defs)

lemma step_initializeResult:
  assumes "wired_state st" "queues st NodeThread = MetaCall Worker M_initializeResult (InitResult success tip) # es"
  shows "step env (Run NodeThread) st =
    Some (if success
      then postEvent GuiThread (MetaCall Window M_show NoArg)
        (record_actions [Call Worker M_initializeResult (InitResult success tip),
           Log Debug [Str ''NodeController::initializeResult() => header_height:'', Num (header_height tip)],
           Emit Worker M_initSuccess NoArg]
          (pop NodeThread st))
      else
        (record_actions [Call Worker M_initializeResult (InitResult success tip),
           Log Debug [Str ''NodeController::initializeResult() => header_height:'', Num (header_height tip)],
           Emit Worker M_initFail NoArg, Call Worker M_onInitFail NoArg,
           Log Debug [Str ''NodeController::onInitFail() '', Tid NodeThread], AppExit 1]
          (pop NodeThread st\<lparr>exit_code := Some 1\<rparr>)))"
  using assms by (simp add: step_defs)

lemma step_shutdownResult:
  assumes "wired_state st" "queues st NodeThread = MetaCall Worker M_shutdownResult NoArg # es"
  shows "step env (Run NodeThread) st =
    Some (postEvent GuiThread (MetaCall Window M_doClose NoArg)
      (record_actions [Call Worker M_shutdownResult NoArg, Emit Worker M_shutdownResult NoArg]
        (pop NodeThread st)))"
  using assms by (simp add: step_defs)

lemma step_InitializeJob:
  assumes "wired_state st" "queues st ExecutorThread = InitializeJob # es"
    and "appInitMain env (n_appInitMain st) = (rv, tip)"
  shows "step env (Run ExecutorThread) st =
    Some (postEvent NodeThread (MetaCall Worker M_initializeResult (InitResult rv tip))
      (postEvent NodeThread (MetaCall Worker M_initializeResult (InitResult rv tip))
        (record_actions [AppInitMain rv, Emit Executor M_initializeResult (InitResult rv tip)]
          (pop ExecutorThread st\<lparr>n_appInitMain := Suc (n_appInitMain st)\<rparr>))))"
  using assms by (simp add: step_defs)

lemma step_ShutdownJob:
  assumes "wired_state st" "queues st ExecutorThread = ShutdownJob # es"
  shows "step env (Run ExecutorThread) st =
    Some (postEvent NodeThread (MetaCall Worker M_shutdownResult NoArg)
      (record_actions [AppShutdown, Emit Executor M_shutdownResult NoArg] (pop ExecutorThread st)))"
  using assms by (simp add: step_defs)

lemma step_Click:
  assumes "wired_state st"
  shows "step env Click st =
    Some (postEvent NodeThread (MetaCall Worker M_listCommands NoArg)
      (record_actions [Emit Button M_clicked NoArg, Call Window M_listCommands NoArg,
         Emit Window M_listCommands NoArg] st))"
  using assms by (simp add: step_defs)

lemma step_CloseRequest:
  assumes "wired_state st"
  shows "step env CloseRequest st =
    Some (if m_allow_close st
      then record_actions [Emit Window M_quitRequested NoArg, CloseAccepted]
        (postEvent NodeThread (MetaCall Worker M_onShutdown NoArg) st)\<lparr>visible := False\<rparr>
      else record_actions [Emit Window M_quitRequested NoArg, CloseIgnored]
        (postEvent NodeThread (MetaCall Worker M_onShutdown NoArg) st))"
  using assms by (simp add: step_defs)

lemma step_idle:
  "step env LoopCondition st = Some st"
  "queues st t = [] \<Longrightarrow> step env (Run t) st = Some st"
  by (simp_all add: step_def dispatch_def)

lemma gui_eventE:
  assumes "gui_event e"
  obtains "e = MetaCall Window M_show NoArg"
  | "e = MetaCall Window M_doClose NoArg"
  | "e = MetaCall Executor M_shutdown NoArg"
  | cs where "e = MetaCall Window M_rcvCommands (Commands cs)"
  using assms by (auto simp: gui_event_def split: event.splits arg.splits)

lemma node_eventE:
  assumes "node_event e"
  obtains "e = MetaCall Worker M_baseInitNode NoArg"
  | "e = MetaCall Worker M_listCommands NoArg"
  | "e = MetaCall Worker M_onShutdown NoArg"
  | "e = MetaCall Worker M_shutdownResult NoArg"
  | success tip where "e = MetaCall Worker M_initializeResult (InitResult success tip)"
  using assms by (auto simp: node_event_def split: event.splits arg.splits)

lemma step_cases [consumes 2, case_names idle window_show rcvCommands doClose executor_shutdown
    baseInit_ok baseInit_fail listCommands onShutdown initResult_ok initResult_fail shutdownResult
    initializeJob shutdownJob click close_accepted close_ignored]:
  assumes "wired_state st" and "step env i st = Some st'"
  obtains
    (idle) "st' = st"
  | (window_show) es where "i = Run GuiThread"
      "queues st GuiThread = MetaCall Window M_show NoArg # es"
      "st' = record_actions [Call Window M_show NoArg] (pop GuiThread st)\<lparr>visible := True\<rparr>"
  | (rcvCommands) cs es where "i = Run GuiThread"
      "queues st GuiThread = MetaCall Window M_rcvCommands (Commands cs) # es"
      "st' = record_actions (Call Window M_rcvCommands (Commands cs) # map (\<lambda>cmd. Log Debug [Str cmd]) cs)
               (pop GuiThread st)"
  | (doClose) es where "i = Run GuiThread"
      "queues st GuiThread = MetaCall Window M_doClose NoArg # es"
      "st' = record_actions [Call Window M_doClose NoArg, AppExit 0]
               (pop GuiThread st)\<lparr>m_allow_close := True, exit_code := Some 0\<rparr>"
  | (executor_shutdown) es where "i = Run GuiThread"
      "queues st GuiThread = MetaCall Executor M_shutdown NoArg # es"
      "st' = postEvent ExecutorThread ShutdownJob
               (record_actions [Call Executor M_shutdown NoArg] (pop GuiThread st))"
  | (baseInit_ok) es where "i = Run NodeThread"
      "queues st NodeThread = MetaCall Worker M_baseInitNode NoArg # es"
      "baseInitialize env (n_baseInitialize st)"
      "st' = postEvent ExecutorThread InitializeJob
        (record_actions [Call Worker M_baseInitNode NoArg, Log Debug [Str ''NodeController::baseInitNode() ''],
           BaseInitialize True, Emit Worker M_baseInitSuccess NoArg, Call Worker M_initNode NoArg,
           Log Debug [Str ''NodeController::initNode() ''], ExecutorInitialize]
          (pop NodeThread st\<lparr>n_baseInitialize := Suc (n_baseInitialize st)\<rparr>))"
  | (baseInit_fail) es where "i = Run NodeThread"
      "queues st NodeThread = MetaCall Worker M_baseInitNode NoArg # es"
      "\<not> baseInitialize env (n_baseInitialize st)"
      "st' = record_actions [Call Worker M_baseInitNode NoArg, Log Debug [Str ''NodeController::baseInitNode() ''],
           BaseInitialize False, Emit Worker M_baseInitFail NoArg, Call Worker M_onBaseInitFail NoArg,
           Log Debug [Str ''NodeController::onBaseInitFail() '', Tid NodeThread], AppExit 1]
          (pop NodeThread st\<lparr>n_baseInitialize := Suc (n_baseInitialize st), exit_code := Some 1\<rparr>)"
  | (listCommands) es where "i = Run NodeThread"
      "queues st NodeThread = MetaCall Worker M_listCommands NoArg # es"
      "st' = postEvent GuiThread (MetaCall Window M_rcvCommands (Commands (listRpcCommands env (n_listRpcCommands st))))
        (record_actions [Call Worker M_listCommands NoArg,
           Log Debug [Str ''NodeController::listCommands()'', Tid NodeThread],
           ListRpcCommands (listRpcCommands env (n_listRpcCommands st)),
           Emit Worker M_commands (Commands (listRpcCommands env (n_listRpcCommands st)))]
          (pop NodeThread st\<lparr>n_listRpcCommands := Suc (n_listRpcCommands st)\<rparr>))"
  | (onShutdown) es where "i = Run NodeThread"
      "queues st NodeThread = MetaCall Worker M_onShutdown NoArg # es"
      "st' = postEvent GuiThread (MetaCall Executor M_shutdown NoArg)
        (record_actions [Call Worker M_onShutdown NoArg, Emit Worker M_shutdown NoArg] (pop NodeThread st))"
  | (initResult_ok) tip es where "i = Run NodeThread"
      "queues st NodeThread = MetaCall Worker M_initializeResult (InitResult True tip) # es"
      "st' = postEvent GuiThread (MetaCall Window M_show NoArg)
        (record_actions [Call Worker M_initializeResult (InitResult True tip),
           Log Debug [Str ''NodeController::initializeResult() => header_height:'', Num (header_height tip)],
           Emit Worker M_initSuccess NoArg]
          (pop NodeThread st))"
  | (initResult_fail) tip es where "i = Run NodeThread"
      "queues st NodeThread = MetaCall Worker M_initializeResult (InitResult False tip) # es"
      "st' = record_actions [Call Worker M_initializeResult (InitResult False tip),
           Log Debug [Str ''NodeController::initializeResult() => header_height:'', Num (header_height tip)],
           Emit Worker M_initFail NoArg, Call Worker M_onInitFail NoArg,
           Log Debug [Str ''NodeController::onInitFail() '', Tid NodeThread], AppExit 1]
          (pop NodeThread st\<lparr>exit_code := Some 1\<rparr>)"
  | (shutdownResult) es where "i = Run NodeThread"
      "queues st NodeThread = MetaCall Worker M_shutdownResult NoArg # es"
      "st' = postEvent GuiThread (MetaCall Window M_doClose NoArg)
        (record_actions [Call Worker M_shutdownResult NoArg, Emit Worker M_shutdownResult NoArg]
          (pop NodeThread st))"
  | (initializeJob) rv tip es where "i = Run ExecutorThread"
      "queues st ExecutorThread = InitializeJob # es"
      "appInitMain env (n_appInitMain st) = (rv, tip)"
      "st' = postEvent NodeThread (MetaCall Worker M_initializeResult (InitResult rv tip))
        (postEvent NodeThread (MetaCall Worker M_initializeResult (InitResult rv tip))
          (record_actions [AppInitMain rv, Emit Executor M_initializeResult (InitResult rv tip)]
            (pop ExecutorThread st\<lparr>n_appInitMain := Suc (n_appInitMain st)\<rparr>)))"
  | (shutdownJob) es where "i = Run ExecutorThread"
      "queues st ExecutorThread = ShutdownJob # es"
      "st' = postEvent NodeThread (MetaCall Worker M_shutdownResult NoArg)
        (record_actions [AppShutdown, Emit Executor M_shutdownResult NoArg] (pop ExecutorThread st))"
  | (click) "i = Click"
      "st' = postEvent NodeThread (MetaCall Worker M_listCommands NoArg)
        (record_actions [Emit Button M_clicked NoArg, Call Window M_listCommands NoArg,
           Emit Window M_listCommands NoArg] st)"
  | (close_accepted) "i = CloseRequest" "m_allow_close st"
      "st' = record_actions [Emit Window M_quitRequested NoArg, CloseAccepted]
        (postEvent NodeThread (MetaCall Worker M_onShutdown NoArg) st)\<lparr>visible := False\<rparr>"
  | (close_ignored) "i = CloseRequest" "\<not> m_allow_close st"
      "st' = record_actions [Emit Window M_quitRequested NoArg, CloseIgnored]
        (postEvent NodeThread (MetaCall Worker M_onShutdown NoArg) st)"
proof (cases i)
  case LoopCondition
  with assms(2) have "st' = st" by (simp add: step_idle)
  then show ?thesis by (rule idle)
next
  case Click
  with assms show ?thesis by (intro click) (auto simp: step_Click)
next
  case CloseRequest
  show ?thesis
  proof (cases "m_allow_close st")
    case True
    with assms CloseRequest show ?thesis by (intro close_accepted) (auto simp: step_CloseRequest)
  next
    case False
    with assms CloseRequest show ?thesis by (intro close_ignored) (auto simp: step_CloseRequest)
  qed
next
  case (Run t)
  show ?thesis
  proof (cases "queues st t")
    case Nil
    with assms(2) Run have "st' = st" by (simp add: step_idle)
    then show ?thesis by (rule idle)
  next
    case (Cons e es)
    show ?thesis
    proof (cases t)
      case GuiThread
      with assms(1) Cons have "gui_event e" by (simp add: wired_state_def)
      then show ?thesis
      proof (cases rule: gui_eventE)
        case 1
        with assms Run Cons GuiThread show ?thesis by (intro window_show) (auto simp: step_window_show)
      next
        case 2
        with assms Run Cons GuiThread show ?thesis by (intro doClose) (auto simp: step_doClose)
      next
        case 3
        with assms Run Cons GuiThread show ?thesis
          by (intro executor_shutdown) (auto simp: step_executor_shutdown)
      next
        case (4 cs)
        with assms Run Cons GuiThread show ?thesis by (intro rcvCommands) (auto simp: step_rcvCommands)
      qed
    next
      case NodeThread
      with assms(1) Cons have "node_event e" by (simp add: wired_state_def)
      then show ?thesis
      proof (cases rule: node_eventE)
        case 1
        show ?thesis
        proof (cases "baseInitialize env (n_baseInitialize st)")
          case True
          with 1 assms Run Cons NodeThread show ?thesis
            by (intro baseInit_ok) (auto simp: step_baseInitNode)
        next
          case False
          with 1 assms Run Cons NodeThread show ?thesis
            by (intro baseInit_fail) (auto simp: step_baseInitNode)
        qed
      next
        case 2
        with assms Run Cons NodeThread show ?thesis by (intro listCommands) (auto simp: step_listCommands)
      next
        case 3
        with assms Run Cons NodeThread show ?thesis by (intro onShutdown) (auto simp: step_onShutdown)
      next
        case 4
        with assms Run Cons NodeThread show ?thesis
          by (intro shutdownResult) (auto simp: step_shutdownResult)
      next
        case (5 success tip)
        show ?thesis
        proof (cases success)
          case True
          with 5 assms Run Cons NodeThread show ?thesis
            by (intro initResult_ok) (auto simp: step_initializeResult)
        next
          case False
          with 5 assms Run Cons NodeThread show ?thesis
            by (intro initResult_fail) (auto simp: step_initializeResult)
        qed
      qed
    next
      case ExecutorThread
      with assms(1) Cons have "executor_event e" by (simp add: wired_state_def)
      then consider "e = InitializeJob" | "e = ShutdownJob" by (auto simp: executor_event_def)
      then show ?thesis
      proof cases
        case 1
        obtain rv tip where "appInitMain env (n_appInitMain st) = (rv, tip)"
          by (cases "appInitMain env (n_appInitMain st)") auto
        with 1 assms Run Cons ExecutorThread show ?thesis
          by (intro initializeJob) (auto simp: step_InitializeJob)
      next
        case 2
        with assms Run Cons ExecutorThread show ?thesis by (intro shutdownJob) (auto simp: step_ShutdownJob)
      qed
    qed
  qed
qed

lemma step_total:
  assumes "wired_state st"
  shows "\<exists>st'. step env i st = Some st'"
proof (cases i)
  case (Run t)
  show ?thesis
  proof (cases "queues st t")
    case Nil
    with Run show ?thesis by (simp add: step_idle)
  next
    case (Cons e es)
    show ?thesis
    proof (cases t)
      case GuiThread
      with assms Cons have "gui_event e" by (simp add: wired_state_def)
      then show ?thesis
        using assms Run Cons GuiThread
        by (cases rule: gui_eventE)
          (simp_all add: step_window_show step_doClose step_executor_shutdown step_rcvCommands)
    next
      case NodeThread
      with assms Cons have "node_event e" by (simp add: wired_state_def)
      then show ?thesis
        using assms Run Cons NodeThread
        by (cases rule: node_eventE)
          (simp_all add: step_baseInitNode step_listCommands step_onShutdown step_shutdownResult
             step_initializeResult)
    next
      case ExecutorThread
      with assms Cons have "executor_event e" by (simp add: wired_state_def)
      then consider "e = InitializeJob" | "e = ShutdownJob" by (auto simp: executor_event_def)
      then show ?thesis
      proof cases
        case 1
        obtain rv tip where "appInitMain env (n_appInitMain st) = (rv, tip)"
          by (cases "appInitMain env (n_appInitMain st)") auto
        with 1 assms Run Cons ExecutorThread show ?thesis by (simp add: step_InitializeJob)
      next
        case 2
        with assms Run Cons ExecutorThread show ?thesis by (simp add: step_ShutdownJob)
      qed
    qed
  qed
qed (use assms in \<open>simp_all add: step_Click step_CloseRequest step_idle\<close>)

lemmas effect_defs = record_actions_def pop_def postEvent_def

lemma step_wired:
  assumes "wired_state st" and "step env i st = Some st'"
  shows "wired_state st'"
  using assms
  by (cases rule: step_cases)
    (use assms(1) in \<open>simp_all add: wired_state_def effect_defs gui_event_def node_event_def executor_event_def\<close>)

lemmas ctor_defs = GuiController_GuiController_def NodeWorker_NodeWorker_def BitcoinGUI_BitcoinGUI_def
  startup_def initial_state_def emit_def connect_def postEvent_def moveToThread_def record_action_def
  qDebug_def qCritical_def QCoreApplication_exit_def Let_def

lemma ctor_result:
  assumes "GuiController_GuiController (emit (invoke env GuiThread) GuiThread) env startup = Some r"
  shows "(\<exists>e s. r = Inl (e, s) \<and> early s) \<or>
         (r = Inr ((loop_entry env)\<lparr>in_exec := False\<rparr>) \<and> (\<exists>err. InitConfig env = Inr err) \<and>
          InitLogging env = None \<and> InitParameterInteraction env = None \<and> MakeNode env = None)"
  using assms
  by (auto simp: ctor_defs early_def quiet_action_def loop_entry_def ctor_trace_def wired_def
      split: sum.splits option.splits)

lemma ctor_total:
  "\<exists>r. GuiController_GuiController (emit (invoke env GuiThread) GuiThread) env startup = Some r"
  by (auto simp: ctor_defs split: sum.splits option.splits)

lemma wired_loop_entry: "wired_state (loop_entry env)"
  by (simp add: wired_state_def loop_entry_def initial_state_def node_event_def)

lemma GuiMain_unfold:
  "GuiMain env ins =
     (if \<not> fst (ParseParameters env)
      then Some (Some 1, qCritical [Str ''fail to parse args: '', Str (snd (ParseParameters env))] startup)
      else Option.bind (GuiController_GuiController (emit (invoke env GuiThread) GuiThread) env startup)
        (\<lambda>r. case r of
           Inl (e, st1) \<Rightarrow> Some (Some 1, log_exception e st1)
         | Inr st1 \<Rightarrow>
             Option.bind (event_loop env ins (st1\<lparr>in_exec := True, exit_code := None\<rparr>))
               (\<lambda>(rc, st2). Some (case rc of None \<Rightarrow> None | Some c \<Rightarrow> Some 0, st2))))"
proof -
  have *: "(\<lambda>(rc, st2). case rc of None \<Rightarrow> Some (None, st2) | Some c \<Rightarrow> Some (Some 0, st2)) =
        (\<lambda>(rc, st2). Some (case rc of None \<Rightarrow> None | Some c \<Rightarrow> Some (0::int), st2::state))"
    by (auto simp: fun_eq_iff split: option.splits)
  show ?thesis
    unfolding GuiMain_def startup_def Let_def QApplication_exec_def EXIT_FAILURE_def EXIT_SUCCESS_def *
    by (simp split: prod.splits)
qed

lemma early_qCritical: "early s \<Longrightarrow> early (qCritical items s)"
  by (simp add: early_def qCritical_def record_action_def quiet_action_def)

lemma early_log_exception: "early s \<Longrightarrow> early (log_exception e s)"
  by (cases e) (simp_all add: early_qCritical)

lemma early_startup: "early startup"
  by (simp add: early_def startup_def record_action_def quiet_action_def initial_state_def)

lemma loop_entry_reset: "(loop_entry env)\<lparr>in_exec := True, exit_code := None\<rparr> = loop_entry env"
  by (simp add: loop_entry_def initial_state_def)

lemma ctor_ok:
  assumes "InitConfig env = Inr err" "InitLogging env = None" "InitParameterInteraction env = None"
    "MakeNode env = None"
  shows "GuiController_GuiController (emit (invoke env GuiThread) GuiThread) env startup =
    Some (Inr ((loop_entry env)\<lparr>in_exec := False\<rparr>))"
  using assms
  by (auto simp: ctor_defs loop_entry_def ctor_trace_def wired_def split: option.splits)

lemma GuiMain_running:
  assumes "fst (ParseParameters env)" "InitConfig env = Inr err" "InitLogging env = None"
    "InitParameterInteraction env = None" "MakeNode env = None"
  shows "GuiMain env ins =
    Option.bind (event_loop env ins (loop_entry env))
      (\<lambda>(rc, st). Some (case rc of None \<Rightarrow> None | Some c \<Rightarrow> Some 0, st))"
  using assms by (simp add: GuiMain_unfold ctor_ok loop_entry_reset)

lemma GuiMain_cases [consumes 1, case_names early running]:
  assumes "GuiMain env ins = Some (rc, st)"
  obtains (early) "early st" "rc = Some 1"
  | (running) rc' where
      "event_loop env ins (loop_entry env) = Some (rc', st)"
      "rc = (case rc' of None \<Rightarrow> None | Some c \<Rightarrow> Some 0)"
      "\<And>ins'. GuiMain env ins' =
         Option.bind (event_loop env ins' (loop_entry env))
           (\<lambda>(rc, st). Some (case rc of None \<Rightarrow> None | Some c \<Rightarrow> Some 0, st))"
proof (cases "fst (ParseParameters env)")
  case False
  with assms have "early st" "rc = Some 1"
    by (auto simp: GuiMain_unfold early_qCritical early_startup)
  then show ?thesis by (rule early)
next
  case True
  with assms obtain r where r: "GuiController_GuiController (emit (invoke env GuiThread) GuiThread) env startup = Some r"
    by (auto simp: GuiMain_unfold split: Option.bind_splits)
  from ctor_result [OF r] show ?thesis
  proof
    assume "\<exists>e s. r = Inl (e, s) \<and> early s"
    then obtain e s where "r = Inl (e, s)" "early s" by blast
    with assms True r have "early st" "rc = Some 1"
      by (auto simp: GuiMain_unfold early_log_exception)
    then show ?thesis by (rule early)
  next
    assume "r = Inr ((loop_entry env)\<lparr>in_exec := False\<rparr>) \<and> (\<exists>err. InitConfig env = Inr err) \<and>
          InitLogging env = None \<and> InitParameterInteraction env = None \<and> MakeNode env = None"
    then obtain err where ok: "InitConfig env = Inr err" "InitLogging env = None"
      "InitParameterInteraction env = None" "MakeNode env = None"
      by blast
    note run = GuiMain_running [OF True ok]
    from assms obtain rc' where
      "event_loop env ins (loop_entry env) = Some (rc', st)"
      "rc = (case rc' of None \<Rightarrow> None | Some c \<Rightarrow> Some 0)"
      unfolding run by (auto split: Option.bind_splits)
    then show ?thesis using run by (intro running)
  qed
qed

lemma event_loop_invariant:
  assumes "event_loop env ins st = Some (rc, st')" and "wired_state st" and "I st"
    and step: "\<And>i s s'. wired_state s \<Longrightarrow> I s \<Longrightarrow> step env i s = Some s' \<Longrightarrow> I s'"
    and leave: "\<And>s. I s \<Longrightarrow> I (s\<lparr>in_exec := False\<rparr>)"
  shows "I st'"
  using assms(1-3)
proof (induction ins arbitrary: st)
  case Nil
  then show ?case by simp
next
  case (Cons i ins)
  show ?case
  proof (cases "i = LoopCondition \<and> exit_code st \<noteq> None")
    case True
    with Cons.prems have "st' = st\<lparr>in_exec := False\<rparr>" by auto
    with Cons.prems show ?thesis by (simp add: leave)
  next
    case False
    with Cons.prems obtain s where s: "step env i st = Some s" "event_loop env ins s = Some (rc, st')"
      by (auto split: Option.bind_splits)
    from Cons.prems s have "wired_state s" "I s"
      by (auto intro: step_wired step)
    with Cons.IH s show ?thesis by blast
  qed
qed

lemma event_loop_total:
  assumes "wired_state st"
  shows "\<exists>r. event_loop env ins st = Some r"
  using assms
proof (induction ins arbitrary: st)
  case Nil
  then show ?case by simp
next
  case (Cons i ins)
  from step_total [OF Cons.prems] obtain s where s: "step env i st = Some s" by blast
  with Cons.prems have "wired_state s" by (auto intro: step_wired)
  with Cons.IH s show ?case by auto
qed

lemma GuiMain_total: "\<exists>rc st. GuiMain env ins = Some (rc, st)"
proof -
  obtain r where r: "GuiController_GuiController (emit (invoke env GuiThread) GuiThread) env startup = Some r"
    using ctor_total by blast
  from event_loop_total [OF wired_loop_entry] obtain q where "event_loop env ins (loop_entry env) = Some q"
    by blast
  with r ctor_result [OF r] show ?thesis
    by (auto simp: GuiMain_unfold loop_entry_reset split: prod.splits)
qed

lemma session_example_loop:
  assumes "baseInitialize env 0" "appInitMain env 0 = (True, \<lparr>header_height = 7\<rparr>)"
    "listRpcCommands env 0 = [''help'', ''stop'']"
  shows "event_loop env session_example (loop_entry env) =
     Some (Some 0, (loop_entry env)\<lparr>m_allow_close := True, visible := True,
        queues := (\<lambda>_. []), in_exec := False, exit_code := Some 0,
        n_baseInitialize := 1, n_appInitMain := 1, n_listRpcCommands := 1,
        trace := ctor_trace env @ session_trace\<rparr>)"
  using assms
  by (simp add: step_defs session_example_def loop_entry_def initial_state_def session_trace_def fun_eq_iff)

lemma GuiMain_session_example: "GuiMain env_example session_example = Some (Some 0, session_final)"
  by (simp add: GuiMain_running [where err = None] session_example_loop session_final_def env_example_def)

lemma only_after_append:
  "only_after P Q (xs @ ys) = (only_after P Q xs \<and> (list_ex P xs \<or> only_after P Q ys))"
  by (induction xs) auto

lemma never_after_append:
  "never_after P Q (xs @ ys) =
     (never_after P Q xs \<and> (if list_ex P xs then list_all (\<lambda>x. \<not> Q x) ys else never_after P Q ys))"
  by (induction xs) auto

lemma only_after_nth:
  "only_after P Q tr \<longleftrightarrow> (\<forall>i<length tr. Q (tr ! i) \<longrightarrow> (\<exists>j<i. P (tr ! j)))"
proof (induction tr)
  case Nil
  show ?case by simp
next
  case (Cons a tr)
  show ?case
  proof (cases "P a")
    case True
    then show ?thesis
      by (auto simp: nth_Cons split: nat.splits)
  next
    case False
    show ?thesis
    proof
      assume L: "only_after P Q (a # tr)"
      with False have na: "\<not> Q a" and tr: "only_after P Q tr" by auto
      show "\<forall>i<length (a # tr). Q ((a # tr) ! i) \<longrightarrow> (\<exists>j<i. P ((a # tr) ! j))"
      proof (intro allI impI)
        fix i assume i: "i < length (a # tr)" and q: "Q ((a # tr) ! i)"
        with na obtain k where k: "i = Suc k" by (cases i) auto
        with i q tr Cons.IH obtain j where "j < k" "P (tr ! j)" by auto
        with k show "\<exists>j<i. P ((a # tr) ! j)" by (intro exI [of _ "Suc j"]) simp
      qed
    next
      assume R: "\<forall>i<length (a # tr). Q ((a # tr) ! i) \<longrightarrow> (\<exists>j<i. P ((a # tr) ! j))"
      from R [rule_format, of 0] have na: "\<not> Q a" by auto
      have "\<forall>i<length tr. Q (tr ! i) \<longrightarrow> (\<exists>j<i. P (tr ! j))"
      proof (intro allI impI)
        fix i assume i: "i < length tr" and q: "Q (tr ! i)"
        with R [rule_format, of "Suc i"] obtain j where j: "j < Suc i" "P ((a # tr) ! j)" by auto
        with False obtain k where "j = Suc k" by (cases j) auto
        with j show "\<exists>j<i. P (tr ! j)" by auto
      qed
      with Cons.IH na show "only_after P Q (a # tr)" by simp
    qed
  qed
qed

lemma only_after_none: "\<forall>x\<in>set xs. \<not> Q x \<Longrightarrow> only_after P Q xs"
  by (induction xs) auto

lemma never_after_none: "\<forall>x\<in>set xs. \<not> Q x \<Longrightarrow> never_after P Q xs"
  by (induction xs) (auto simp: list_all_iff)

lemmas trace_simps = only_after_append never_after_append list_all_iff list_ex_iff


lemma exit_follows_doClose_append:
  "exit_follows_doClose xs \<Longrightarrow> exit_follows_doClose (xs @ ys) = exit_follows_doClose ys"
  by (induction xs) (auto split: list.splits)

lemma only_after_map_none: "\<forall>x. \<not> Q (f x) \<Longrightarrow> only_after P Q (map f xs)"
  by (induction xs) auto

lemma exit_follows_doClose_map_none: "\<forall>x. \<not> is_doClose (f x) \<Longrightarrow> exit_follows_doClose (map f xs)"
  by (induction xs) auto

lemma exit_follows_doClose_none: "\<forall>x\<in>set xs. \<not> is_doClose x \<Longrightarrow> exit_follows_doClose xs"
  by (induction xs) auto

lemma only_after_ex: "only_after P Q tr \<Longrightarrow> list_ex Q tr \<Longrightarrow> list_ex P tr"
  by (induction tr) auto

lemma early_actions:
  assumes "early st" "a \<in> set (trace st)"
  obtains s items where "a = Log s items" | f where "a = Called f" | c where "a = AppExit c"
proof -
  from assms have "quiet_action a" by (auto simp: early_def list_all_iff)
  then show ?thesis
    using that by (cases a) (simp_all add: quiet_action_def)
qed

lemma single_attempt_step:
  assumes "wired_state st" "single_attempt env st" "step env i st = Some st'"
  shows "single_attempt env st'"
  using assms(1,3)
proof (cases rule: step_cases)
  case (baseInit_ok es)
  with assms(2) have "n_baseInitialize st = 0" by (simp add: single_attempt_def)
  with baseInit_ok assms(2) show ?thesis by (auto simp: single_attempt_def effect_defs)
next
  case (baseInit_fail es)
  with assms(2) have "n_baseInitialize st = 0" by (simp add: single_attempt_def)
  with baseInit_fail assms(2) show ?thesis by (auto simp: single_attempt_def effect_defs)
next
  case (initializeJob rv tip es)
  with assms(2) have "n_appInitMain st = 0" by (simp add: single_attempt_def)
  with initializeJob assms(2) show ?thesis by (auto simp: single_attempt_def effect_defs)
qed (use assms(2) in \<open>auto simp: single_attempt_def effect_defs\<close>)

lemma single_attempt_entry: "single_attempt env (loop_entry env)"
  by (auto simp: single_attempt_def loop_entry_def initial_state_def ctor_trace_def
      split: sum.splits option.splits)

lemma single_attempt_leave: "single_attempt env st \<Longrightarrow> single_attempt env (st\<lparr>in_exec := False\<rparr>)"
  by (simp add: single_attempt_def)

lemma single_attempt_early:
  assumes "early st"
  shows "single_attempt env st"
proof -
  have "\<forall>a\<in>set (trace st). (\<forall>b. a \<noteq> BaseInitialize b \<and> a \<noteq> AppInitMain b)"
    by (auto elim!: early_actions [OF assms])
  with assms show ?thesis
    by (auto simp: single_attempt_def early_def)
qed

lemma event_loop_append:
  "event_loop env (xs @ ys) st =
     Option.bind (event_loop env xs st)
       (\<lambda>(rc, s). case rc of None \<Rightarrow> event_loop env ys s | Some c \<Rightarrow> Some (Some c, s))"
proof (induction xs arbitrary: st)
  case Nil
  show ?case by simp
next
  case (Cons i xs)
  show ?case
  proof (cases "step env i st")
    case None
    then show ?thesis by auto
  next
    case (Some s)
    with Cons.IH [of s] show ?thesis by auto
  qed
qed

lemma event_loop_wired:
  assumes "event_loop env ins st = Some (None, st')" "wired_state st"
  shows "wired_state st'"
  using assms
proof (induction ins arbitrary: st)
  case Nil
  then show ?case by simp
next
  case (Cons i ins)
  then obtain s where s: "step env i st = Some s" "event_loop env ins s = Some (None, st')"
    by (auto split: if_splits Option.bind_splits)
  with Cons.prems have "wired_state s" by (auto intro: step_wired)
  with Cons.IH s show ?case by blast
qed

lemma GuiMain_invariant:
  assumes early: "\<And>st. early st \<Longrightarrow> I st"
    and entry: "I (loop_entry env)"
    and step: "\<And>i s s'. wired_state s \<Longrightarrow> I s \<Longrightarrow> step env i s = Some s' \<Longrightarrow> I s'"
    and leave: "\<And>s. I s \<Longrightarrow> I (s\<lparr>in_exec := False\<rparr>)"
  shows "\<exists>rc st. GuiMain env ins = Some (rc, st) \<and> I st \<and>
           (rc = None \<or> rc = Some 0 \<or> rc = Some 1 \<and> early st)"
proof -
  obtain rc st where run: "GuiMain env ins = Some (rc, st)"
    using GuiMain_total [of env ins] by auto
  then have "I st \<and> (rc = None \<or> rc = Some 0 \<or> rc = Some 1 \<and> early st)"
  proof (cases rule: GuiMain_cases)
    case early
    then show ?thesis by (simp add: assms(1))
  next
    case (running rc')
    from running(1) wired_loop_entry entry have "I st"
      by (rule event_loop_invariant) (auto intro: step leave)
    with running(2) show ?thesis by (auto split: option.splits)
  qed
  with run show ?thesis by blast
qed

lemma session_started_loop:
  assumes "baseInitialize env 0" "appInitMain env 0 = (True, \<lparr>header_height = 7\<rparr>)"
  shows "event_loop env session_started (loop_entry env) =
     Some (None, (loop_entry env)\<lparr>visible := True, queues := (\<lambda>_. []),
        n_baseInitialize := 1, n_appInitMain := 1,
        trace := ctor_trace env @ take 17 session_trace\<rparr>)"
  using assms
  by (simp add: step_defs session_started_def loop_entry_def initial_state_def session_trace_def fun_eq_iff)

lemma GuiMain_session_started: "GuiMain env_example session_started = Some (None, started_final)"
  by (simp add: GuiMain_running [where err = None] session_started_loop started_final_def env_example_def)

lemma session_closed_twice_result:
  "\<exists>st. GuiMain env_example session_closed_twice = Some (Some 0, st) \<and>
        trace st = ctor_trace env_example @ session_trace @ [Emit Window M_quitRequested NoArg, CloseAccepted] \<and>
        \<not> visible st"
  by (simp add: GuiMain_running [where err = None] env_example_def step_defs loop_entry_def
      initial_state_def session_closed_twice_def session_example_def session_trace_def)

lemma click_to_log:
  assumes "wired_state st" "queues st GuiThread = []" "queues st NodeThread = []"
  shows "\<exists>st'. event_loop env [Click, Run NodeThread, Run GuiThread] st = Some (None, st') \<and>
    trace st' = trace st @
      [Emit Button M_clicked NoArg, Call Window M_listCommands NoArg, Emit Window M_listCommands NoArg,
       Call Worker M_listCommands NoArg,
       Log Debug [Str ''NodeController::listCommands()'', Tid NodeThread],
       ListRpcCommands (listRpcCommands env (n_listRpcCommands st)),
       Emit Worker M_commands (Commands (listRpcCommands env (n_listRpcCommands st))),
       Call Window M_rcvCommands (Commands (listRpcCommands env (n_listRpcCommands st)))] @
      map (\<lambda>cmd. Log Debug [Str cmd]) (listRpcCommands env (n_listRpcCommands st))"
proof -
  let ?r = "listRpcCommands env (n_listRpcCommands st)"
  obtain s1 where s1: "step env Click st = Some s1"
    and s1_def: "s1 = postEvent NodeThread (MetaCall Worker M_listCommands NoArg)
        (record_actions [Emit Button M_clicked NoArg, Call Window M_listCommands NoArg,
           Emit Window M_listCommands NoArg] st)"
    using step_Click [OF assms(1)] by blast
  have w1: "wired_state s1" using step_wired [OF assms(1) s1] .
  have q1: "queues s1 NodeThread = [MetaCall Worker M_listCommands NoArg]"
    using assms by (simp add: s1_def effect_defs)
  obtain s2 where s2: "step env (Run NodeThread) s1 = Some s2"
    and s2_def: "s2 = postEvent GuiThread (MetaCall Window M_rcvCommands (Commands (listRpcCommands env (n_listRpcCommands s1))))
        (record_actions [Call Worker M_listCommands NoArg,
           Log Debug [Str ''NodeController::listCommands()'', Tid NodeThread],
           ListRpcCommands (listRpcCommands env (n_listRpcCommands s1)),
           Emit Worker M_commands (Commands (listRpcCommands env (n_listRpcCommands s1)))]
          (pop NodeThread s1\<lparr>n_listRpcCommands := Suc (n_listRpcCommands s1)\<rparr>))"
    using step_listCommands [OF w1 q1] by blast
  have w2: "wired_state s2" using step_wired [OF w1 s2] .
  have n1: "n_listRpcCommands s1 = n_listRpcCommands st"
    by (simp add: s1_def effect_defs)
  have q2: "queues s2 GuiThread = [MetaCall Window M_rcvCommands (Commands ?r)]"
    using assms by (simp add: s2_def s1_def effect_defs)
  note s3 = step_rcvCommands [OF w2 q2, of env]
  have "event_loop env [Click, Run NodeThread, Run GuiThread] st =
      Some (None, record_actions (Call Window M_rcvCommands (Commands ?r) # map (\<lambda>cmd. Log Debug [Str cmd]) ?r)
            (pop GuiThread s2))"
    using s1 s2 s3 by simp
  moreover have "trace (record_actions (Call Window M_rcvCommands (Commands ?r) # map (\<lambda>cmd. Log Debug [Str cmd]) ?r)
            (pop GuiThread s2)) = trace st @
      [Emit Button M_clicked NoArg, Call Window M_listCommands NoArg, Emit Window M_listCommands NoArg,
       Call Worker M_listCommands NoArg,
       Log Debug [Str ''NodeController::listCommands()'', Tid NodeThread],
       ListRpcCommands ?r, Emit Worker M_commands (Commands ?r),
       Call Window M_rcvCommands (Commands ?r)] @ map (\<lambda>cmd. Log Debug [Str cmd]) ?r"
    by (simp add: s2_def s1_def effect_defs)
  ultimately show ?thesis by blast
qed

lemma failing_init_example:
  "GuiMain (env_example\<lparr>appInitMain := (\<lambda>n. (False, \<lparr>header_height = 0\<rparr>))\<rparr>)
     [Run NodeThread, Run ExecutorThread, Run NodeThread, Run NodeThread] = Some (None, failing_init_final)"
  by (simp add: GuiMain_running [where err = None] env_example_def step_defs loop_entry_def
      initial_state_def ctor_trace_def failing_init_final_def failing_init_trace_def fun_eq_iff)

section \<open>The claims\<close>

subsection \<open>Exit codes of \<open>GuiMain\<close>\<close>

text \<open>
  Claim C7: \<open>GuiMain\<close> returns 1 when parsing the command-line parameters fails, and
  the last thing it does before is to log the error. It returns 1 when an exception
  leaves the constructor of the controller, and the last thing it does before is to log
  the exception at the top level: \<open>what()\<close> of a \<open>std::exception\<close>,
  \<open>Runaway Exception\<close> for anything else. It returns 0 when the event loop of the
  application returns, whatever code the loop returns.
\<close>

theorem GuiMain_exit_codes:
  "(\<not> fst (ParseParameters env) \<longrightarrow>
      GuiMain env ins =
        Some (Some 1, initial_state\<lparr>trace :=
          [Called ''SetupEnvironment'', Called ''QApplication'', Called ''SetupServerArgs'',
           Log Critical [Str ''fail to parse args: '', Str (snd (ParseParameters env))]]\<rparr>)) \<and>
   (fst (ParseParameters env) \<and>
    GuiController_GuiController (emit (invoke env GuiThread) GuiThread) env startup =
      Some (Inl (StdException what, st1)) \<longrightarrow>
      GuiMain env ins = Some (Some 1, st1\<lparr>trace := trace st1 @ [Log Critical [Str what]]\<rparr>)) \<and>
   (fst (ParseParameters env) \<and>
    GuiController_GuiController (emit (invoke env GuiThread) GuiThread) env startup =
      Some (Inl (OtherException, st1)) \<longrightarrow>
      GuiMain env ins =
        Some (Some 1, st1\<lparr>trace := trace st1 @ [Log Critical [Str ''Runaway Exception'']]\<rparr>)) \<and>
   (fst (ParseParameters env) \<and>
    GuiController_GuiController (emit (invoke env GuiThread) GuiThread) env startup = Some (Inr st1) \<and>
    QApplication_exec env ins st1 = Some (Some c, st2) \<longrightarrow>
      GuiMain env ins = Some (Some 0, st2))"
  by (simp add: GuiMain_unfold QApplication_exec_def qCritical_def record_action_def startup_def
      initial_state_def)

theorem GuiMain_exit_codes_witness:
  "GuiMain (env_example\<lparr>ParseParameters := (False, ''bad option'')\<rparr>) [] =
     Some (Some 1, initial_state\<lparr>trace :=
       [Called ''SetupEnvironment'', Called ''QApplication'', Called ''SetupServerArgs'',
        Log Critical [Str ''fail to parse args: '', Str ''bad option'']]\<rparr>) \<and>
   GuiMain (env_example\<lparr>InitLogging := Some (StdException ''no log file'')\<rparr>) [] =
     Some (Some 1, initial_state\<lparr>constructed := [Controller], trace :=
       [Called ''SetupEnvironment'', Called ''QApplication'', Called ''SetupServerArgs'',
        Log Debug [Str ''GuiController::GuiController()'', Tid GuiThread],
        Log Critical [Str ''no log file'']]\<rparr>) \<and>
   GuiMain (env_example\<lparr>InitParameterInteraction := Some OtherException\<rparr>) [] =
     Some (Some 1, initial_state\<lparr>constructed := [Controller], trace :=
       [Called ''SetupEnvironment'', Called ''QApplication'', Called ''SetupServerArgs'',
        Log Debug [Str ''GuiController::GuiController()'', Tid GuiThread],
        Called ''InitLogging'',
        Log Critical [Str ''Runaway Exception'']]\<rparr>) \<and>
   QApplication_exec env_example session_example ((loop_entry env_example)\<lparr>in_exec := False\<rparr>) =
     Some (Some 0, session_final) \<and>
   GuiMain env_example session_example = Some (Some 0, session_final)"
proof -
  let ?bad = "env_example\<lparr>ParseParameters := (False, ''bad option'')\<rparr>"
  let ?throw = "env_example\<lparr>InitLogging := Some (StdException ''no log file'')\<rparr>"
  let ?runaway = "env_example\<lparr>InitParameterInteraction := Some OtherException\<rparr>"
  let ?s1 = "initial_state\<lparr>constructed := [Controller], trace :=
       [Called ''SetupEnvironment'', Called ''QApplication'', Called ''SetupServerArgs'',
        Log Debug [Str ''GuiController::GuiController()'', Tid GuiThread]]\<rparr>"
  let ?s2 = "initial_state\<lparr>constructed := [Controller], trace :=
       [Called ''SetupEnvironment'', Called ''QApplication'', Called ''SetupServerArgs'',
        Log Debug [Str ''GuiController::GuiController()'', Tid GuiThread],
        Called ''InitLogging'']\<rparr>"
  have 1: "\<not> fst (ParseParameters ?bad)" "snd (ParseParameters ?bad) = ''bad option''"
    by (simp_all add: env_example_def)
  have 2: "fst (ParseParameters ?throw) \<and>
      GuiController_GuiController (emit (invoke ?throw GuiThread) GuiThread) ?throw startup =
        Some (Inl (StdException ''no log file'', ?s1))"
    by (simp add: env_example_def ctor_defs)
  have 3: "fst (ParseParameters ?runaway) \<and>
      GuiController_GuiController (emit (invoke ?runaway GuiThread) GuiThread) ?runaway startup =
        Some (Inl (OtherException, ?s2))"
    by (simp add: env_example_def ctor_defs)
  have exec: "QApplication_exec env_example session_example ((loop_entry env_example)\<lparr>in_exec := False\<rparr>) =
      Some (Some 0, session_final)"
    by (simp add: QApplication_exec_def loop_entry_reset session_example_loop session_final_def
        env_example_def)
  have 4: "fst (ParseParameters env_example) \<and>
      GuiController_GuiController (emit (invoke env_example GuiThread) GuiThread) env_example startup =
        Some (Inr ((loop_entry env_example)\<lparr>in_exec := False\<rparr>)) \<and>
      QApplication_exec env_example session_example ((loop_entry env_example)\<lparr>in_exec := False\<rparr>) =
        Some (Some 0, session_final)"
    using exec by (simp add: ctor_ok [where err = None] env_example_def)
  from GuiMain_exit_codes [where env = ?bad and ins = "[]"] 1
  have "GuiMain ?bad [] =
     Some (Some 1, initial_state\<lparr>trace :=
       [Called ''SetupEnvironment'', Called ''QApplication'', Called ''SetupServerArgs'',
        Log Critical [Str ''fail to parse args: '', Str ''bad option'']]\<rparr>)"
    by simp
  moreover from GuiMain_exit_codes [where env = ?throw and ins = "[]" and what = "''no log file''"
      and ?st1.0 = ?s1] 2
  have "GuiMain ?throw [] =
     Some (Some 1, initial_state\<lparr>constructed := [Controller], trace :=
       [Called ''SetupEnvironment'', Called ''QApplication'', Called ''SetupServerArgs'',
        Log Debug [Str ''GuiController::GuiController()'', Tid GuiThread],
        Log Critical [Str ''no log file'']]\<rparr>)"
    by simp
  moreover from GuiMain_exit_codes [where env = ?runaway and ins = "[]" and ?st1.0 = ?s2] 3
  have "GuiMain ?runaway [] =
     Some (Some 1, initial_state\<lparr>constructed := [Controller], trace :=
       [Called ''SetupEnvironment'', Called ''QApplication'', Called ''SetupServerArgs'',
        Log Debug [Str ''GuiController::GuiController()'', Tid GuiThread],
        Called ''InitLogging'',
        Log Critical [Str ''Runaway Exception'']]\<rparr>)"
    by simp
  moreover from GuiMain_exit_codes [where env = env_example and ins = session_example] 4
  have "GuiMain env_example session_example = Some (Some 0, session_final)" by blast
  ultimately show ?thesis using exec by simp
qed

subsection \<open>A configuration file that does not parse\<close>

text \<open>
  Claim C9: when \<open>InitConfig\<close> reports an error, the constructor of the controller
  does not stop. Whatever it does afterwards it does as when the file parses: the same
  result, with states that differ only by the logged error and the recorded call of
  \<open>exit(1)\<close>. In particular, when nothing throws, logging is initialised, the window
  and the worker are constructed, every connection is made, the worker lives in its
  thread, the thread is started and \<open>initNode\<close> is emitted, which queues
  \<open>baseInitNode\<close> for the worker.
\<close>

theorem ctor_continues_after_config_failure:
  "InitConfig env = Inr (Some message) \<longrightarrow>
     map_option (map_sum (map_prod id (without_config_failure message)) (without_config_failure message))
       (GuiController_GuiController (emit (invoke env GuiThread) GuiThread) env startup) =
     GuiController_GuiController (emit (invoke (env\<lparr>InitConfig := Inr None\<rparr>) GuiThread) GuiThread)
       (env\<lparr>InitConfig := Inr None\<rparr>) startup \<and>
     (InitLogging env = None \<and> InitParameterInteraction env = None \<and> MakeNode env = None \<longrightarrow>
        (\<exists>st. GuiController_GuiController (emit (invoke env GuiThread) GuiThread) env startup = Some (Inr st) \<and>
           Called ''InitLogging'' \<in> set (trace st) \<and>
           constructed st = [Controller, Window, Button, Worker, Executor] \<and>
           connections st = wired \<and>
           affinity st Worker = NodeThread \<and>
           node_thread_started st \<and>
           Emit Controller M_initNode NoArg \<in> set (trace st) \<and>
           queues st NodeThread = [MetaCall Worker M_baseInitNode NoArg]))"
  by (auto simp: ctor_defs without_config_failure_def wired_def split: option.splits)

theorem ctor_continues_after_config_failure_witness:
  "InitConfig (env_example\<lparr>InitConfig := Inr (Some ''line 3: bad option'')\<rparr>) =
     Inr (Some ''line 3: bad option'') \<and>
   GuiController_GuiController (emit (invoke env_example GuiThread) GuiThread) env_example startup =
     Some (Inr ((loop_entry env_example)\<lparr>in_exec := False\<rparr>)) \<and>
   map_option (map_sum (map_prod id (without_config_failure ''line 3: bad option''))
       (without_config_failure ''line 3: bad option''))
     (GuiController_GuiController
        (emit (invoke (env_example\<lparr>InitConfig := Inr (Some ''line 3: bad option'')\<rparr>) GuiThread) GuiThread)
        (env_example\<lparr>InitConfig := Inr (Some ''line 3: bad option'')\<rparr>) startup) =
     Some (Inr ((loop_entry env_example)\<lparr>in_exec := False\<rparr>))"
proof -
  let ?env = "env_example\<lparr>InitConfig := Inr (Some ''line 3: bad option'')\<rparr>"
  have same: "?env\<lparr>InitConfig := Inr None\<rparr> = env_example"
    by (simp add: env_example_def)
  have 1: "InitConfig ?env = Inr (Some ''line 3: bad option'')"
    by simp
  have 2: "GuiController_GuiController (emit (invoke env_example GuiThread) GuiThread) env_example startup =
      Some (Inr ((loop_entry env_example)\<lparr>in_exec := False\<rparr>))"
    by (simp add: ctor_ok [where err = None] env_example_def)
  from ctor_continues_after_config_failure [of ?env "''line 3: bad option''"] 1 2 show ?thesis
    unfolding same by simp
qed

text \<open>
  Claim C1: a configuration file that does not parse is logged, but the process does
  not exit with code 1. \<open>QApplication::exit(1)\<close> is called before the event loop runs
  and so does nothing, the application starts as usual, and \<open>GuiMain\<close> returns
  \<open>EXIT_SUCCESS\<close> when the event loop ends, because it drops what \<open>exec()\<close>
  returns. Here the node starts, the window is shown, the user closes it and
  \<open>GuiMain\<close> returns 0.
\<close>

theorem config_failure_exit_code:
  "\<exists>st. GuiMain (env_example\<lparr>InitConfig := Inr (Some ''line 3: bad option'')\<rparr>) session_example =
          Some (Some 0, st) \<and>
        trace st =
          [Called ''SetupEnvironment'', Called ''QApplication'', Called ''SetupServerArgs'',
           Log Debug [Str ''GuiController::GuiController()'', Tid GuiThread],
           Log Critical [Str ''Fail to open bitcoin.conf:'', Str ''line 3: bad option''], AppExit 1,
           Called ''InitLogging'', Called ''InitParameterInteraction'', Emit Controller M_initNode NoArg,
           Log Debug [Str ''GuiController::GuiController() ended'', Tid GuiThread]] @ session_trace \<and>
        visible st \<and> exit_code st = Some 0"
  by (simp add: GuiMain_running [where err = "Some ''line 3: bad option''"] session_example_loop
      env_example_def ctor_trace_def)

subsection \<open>Node initialisation that fails\<close>

text \<open>
  Claim C6: when \<open>baseInitialize()\<close> returns false, or the full initialisation
  reports failure, \<open>QCoreApplication::exit(1)\<close> is called and the event loop returns
  1, and no phase is tried again; but \<open>GuiMain\<close> drops what \<open>exec()\<close> returns and
  returns \<open>EXIT_SUCCESS\<close>, so the exit code is 0 and not 1.
\<close>

theorem init_failure_exit_code:
  "(\<exists>st. GuiMain (env_example\<lparr>baseInitialize := (\<lambda>n. False)\<rparr>) [Run NodeThread, LoopCondition] =
          Some (Some 0, st) \<and>
        exit_code st = Some 1 \<and>
        trace st = ctor_trace env_example @
          [Call Worker M_baseInitNode NoArg, Log Debug [Str ''NodeController::baseInitNode() ''],
           BaseInitialize False, Emit Worker M_baseInitFail NoArg, Call Worker M_onBaseInitFail NoArg,
           Log Debug [Str ''NodeController::onBaseInitFail() '', Tid NodeThread], AppExit 1]) \<and>
   (\<exists>st. GuiMain (env_example\<lparr>appInitMain := (\<lambda>n. (False, \<lparr>header_height = 0\<rparr>))\<rparr>)
            [Run NodeThread, Run ExecutorThread, Run NodeThread, LoopCondition] =
          Some (Some 0, st) \<and>
        exit_code st = Some 1 \<and>
        trace st = ctor_trace env_example @
          [Call Worker M_baseInitNode NoArg, Log Debug [Str ''NodeController::baseInitNode() ''],
           BaseInitialize True, Emit Worker M_baseInitSuccess NoArg, Call Worker M_initNode NoArg,
           Log Debug [Str ''NodeController::initNode() ''], ExecutorInitialize,
           AppInitMain False,
           Emit Executor M_initializeResult (InitResult False \<lparr>header_height = 0\<rparr>),
           Call Worker M_initializeResult (InitResult False \<lparr>header_height = 0\<rparr>),
           Log Debug [Str ''NodeController::initializeResult() => header_height:'', Num 0],
           Emit Worker M_initFail NoArg, Call Worker M_onInitFail NoArg,
           Log Debug [Str ''NodeController::onInitFail() '', Tid NodeThread], AppExit 1])"
  by (simp add: GuiMain_running [where err = None] env_example_def step_defs loop_entry_def
      initial_state_def ctor_trace_def)

subsection \<open>The flag that lets the window close\<close>

lemma close_discipline_step:
  assumes "wired_state st" "close_discipline st" "step env i st = Some st'"
  shows "close_discipline st'"
  using assms(1,3)
  by (cases rule: step_cases)
    (use assms(2) in \<open>auto simp: close_discipline_def effect_defs trace_simps is_doClose_def
       intro!: only_after_none never_after_none\<close>)

lemma close_discipline_leave: "close_discipline st \<Longrightarrow> close_discipline (st\<lparr>in_exec := False\<rparr>)"
  by (simp add: close_discipline_def)

lemma close_discipline_entry: "close_discipline (loop_entry env)"
  by (auto simp: close_discipline_def loop_entry_def initial_state_def ctor_trace_def is_doClose_def
      split: sum.splits option.splits)

lemma close_discipline_early:
  assumes "early st"
  shows "close_discipline st"
proof -
  have "\<forall>a\<in>set (trace st). \<not> is_doClose a \<and> a \<noteq> CloseAccepted \<and> a \<noteq> CloseIgnored"
    by (auto elim!: early_actions [OF assms] simp: is_doClose_def)
  with assms show ?thesis
    by (auto simp: close_discipline_def early_def list_ex_iff intro!: only_after_none never_after_none)
qed

text \<open>
  Claim C8: \<open>m_allow_close\<close> is false when the window is constructed, and in every
  run it is true exactly when \<open>doClose\<close> has run: nothing else sets it and nothing
  clears it. So a close event is accepted only after \<open>doClose\<close> has run, and no
  close event is ignored once it has.
\<close>

theorem allow_close_only_by_doClose:
  "\<not> m_allow_close (BitcoinGUI_BitcoinGUI s) \<and>
   (\<exists>rc st. GuiMain env ins = Some (rc, st) \<and>
      (m_allow_close st \<longleftrightarrow> list_ex is_doClose (trace st)) \<and>
      only_after is_doClose (\<lambda>a. a = CloseAccepted) (trace st) \<and>
      never_after is_doClose (\<lambda>a. a = CloseIgnored) (trace st))"
proof -
  have "\<exists>rc st. GuiMain env ins = Some (rc, st) \<and> close_discipline st \<and>
      (rc = None \<or> rc = Some 0 \<or> rc = Some 1 \<and> early st)"
    by (rule GuiMain_invariant [where I = close_discipline])
      (auto intro: close_discipline_early close_discipline_entry close_discipline_step
         close_discipline_leave)
  then show ?thesis
    by (auto simp: close_discipline_def BitcoinGUI_BitcoinGUI_def connect_def)
qed

theorem allow_close_only_by_doClose_witness:
  "\<exists>st. GuiMain env_example session_closed_twice = Some (Some 0, st) \<and>
     trace st = ctor_trace env_example @ session_trace @ [Emit Window M_quitRequested NoArg, CloseAccepted] \<and>
     m_allow_close st \<and> list_ex is_doClose (trace st) \<and>
     CloseIgnored \<in> set (trace st) \<and> CloseAccepted \<in> set (trace st) \<and>
     only_after is_doClose (\<lambda>a. a = CloseAccepted) (trace st) \<and>
     never_after is_doClose (\<lambda>a. a = CloseIgnored) (trace st)"
proof -
  from session_closed_twice_result obtain st where
    run: "GuiMain env_example session_closed_twice = Some (Some 0, st)"
    and tr: "trace st = ctor_trace env_example @ session_trace @ [Emit Window M_quitRequested NoArg, CloseAccepted]"
    by blast
  from tr have "list_ex is_doClose (trace st)" "CloseIgnored \<in> set (trace st)"
    "CloseAccepted \<in> set (trace st)"
    by (simp_all add: session_trace_def is_doClose_def)
  with allow_close_only_by_doClose [where env = env_example and ins = session_closed_twice] run tr
  show ?thesis by auto
qed

subsection \<open>The shutdown handshake\<close>

lemma shutdown_handshake_step:
  assumes "wired_state st" "shutdown_handshake st" "step env i st = Some st'"
  shows "shutdown_handshake st'"
  using assms(1,3)
  by (cases rule: step_cases)
    (use assms(2) in \<open>auto simp: shutdown_handshake_def effect_defs trace_simps is_doClose_def is_ack_def
       exit_follows_doClose_append only_after_map_none exit_follows_doClose_map_none\<close>)

lemma shutdown_handshake_leave: "shutdown_handshake st \<Longrightarrow> shutdown_handshake (st\<lparr>in_exec := False\<rparr>)"
  by (simp add: shutdown_handshake_def)

lemma shutdown_handshake_entry: "shutdown_handshake (loop_entry env)"
  by (auto simp: shutdown_handshake_def loop_entry_def initial_state_def ctor_trace_def is_doClose_def
      is_ack_def split: sum.splits option.splits)

lemma shutdown_handshake_early:
  assumes "early st"
  shows "shutdown_handshake st"
proof -
  have "\<forall>a\<in>set (trace st). \<not> is_doClose a \<and> a \<noteq> CloseAccepted"
    by (auto elim!: early_actions [OF assms] simp: is_doClose_def)
  with assms show ?thesis
    by (auto simp: shutdown_handshake_def early_def intro!: only_after_none exit_follows_doClose_none)
qed

text \<open>
  Claim C2: in every run a close event is accepted only after the worker has emitted
  its \<open>shutdownResult\<close> signal, so every close request before that is ignored and
  the window stays open; \<open>doClose\<close>, which completes the close, runs only after
  that signal too, and it calls \<open>exit(0)\<close> at once; once it has run, \<open>GuiMain\<close>
  returns 0 if it returns.
\<close>

theorem close_waits_for_shutdownResult:
  "\<exists>rc st. GuiMain env ins = Some (rc, st) \<and>
     only_after is_ack (\<lambda>a. a = CloseAccepted) (trace st) \<and>
     only_after is_ack is_doClose (trace st) \<and>
     exit_follows_doClose (trace st) \<and>
     (list_ex is_doClose (trace st) \<longrightarrow> rc = None \<or> rc = Some 0)"
proof -
  have "\<exists>rc st. GuiMain env ins = Some (rc, st) \<and> shutdown_handshake st \<and>
      (rc = None \<or> rc = Some 0 \<or> rc = Some 1 \<and> early st)"
    by (rule GuiMain_invariant [where I = shutdown_handshake])
      (auto intro: shutdown_handshake_early shutdown_handshake_entry shutdown_handshake_step
         shutdown_handshake_leave)
  then obtain rc st where run: "GuiMain env ins = Some (rc, st)" and inv: "shutdown_handshake st"
    and rc: "rc = None \<or> rc = Some 0 \<or> rc = Some 1 \<and> early st"
    by blast
  have "\<not> list_ex is_doClose (trace st)" if "early st"
    by (auto elim!: early_actions [OF that] simp: is_doClose_def list_ex_iff)
  with rc have "list_ex is_doClose (trace st) \<longrightarrow> rc = None \<or> rc = Some 0"
    by blast
  with run inv show ?thesis
    by (auto simp: shutdown_handshake_def)
qed

theorem close_waits_for_shutdownResult_witness:
  "GuiMain env_example session_example = Some (Some 0, session_final) \<and>
   only_after is_ack (\<lambda>a. a = CloseAccepted) (trace session_final) \<and>
   only_after is_ack is_doClose (trace session_final) \<and>
   exit_follows_doClose (trace session_final) \<and>
   list_ex is_doClose (trace session_final) \<and>
   CloseIgnored \<in> set (trace session_final)"
proof -
  have "list_ex is_doClose (trace session_final)" "CloseIgnored \<in> set (trace session_final)"
    by (simp_all add: session_final_def session_trace_def is_doClose_def)
  with close_waits_for_shutdownResult [of env_example session_example] GuiMain_session_example
  show ?thesis by auto
qed

subsection \<open>The two phases of initialisation\<close>

lemma two_phases_step:
  assumes "wired_state st" "two_phases st" "step env i st = Some st'"
  shows "two_phases st'"
  using assms(1,3)
  by (cases rule: step_cases)
    (use assms(2) in \<open>auto simp: two_phases_def effect_defs trace_simps only_after_map_none\<close>)

lemma two_phases_leave: "two_phases st \<Longrightarrow> two_phases (st\<lparr>in_exec := False\<rparr>)"
  by (simp add: two_phases_def)

lemma two_phases_entry: "two_phases (loop_entry env)"
  by (auto simp: two_phases_def loop_entry_def initial_state_def ctor_trace_def
      split: sum.splits option.splits)

lemma two_phases_early:
  assumes "early st"
  shows "two_phases st"
proof -
  have "\<forall>a\<in>set (trace st). a \<noteq> ExecutorInitialize"
    by (auto elim!: early_actions [OF assms])
  then show ?thesis
    by (auto simp: two_phases_def intro!: only_after_none)
qed

text \<open>
  Claim C3: in every run \<open>InitExecutor::initialize\<close> is called only after
  \<open>baseInitialize()\<close> has returned true, and when \<open>baseInitialize()\<close> returns
  false it is never called.
\<close>

theorem full_init_after_base_init:
  "\<exists>rc st. GuiMain env ins = Some (rc, st) \<and>
     only_after (\<lambda>a. a = BaseInitialize True) (\<lambda>a. a = ExecutorInitialize) (trace st) \<and>
     (\<not> baseInitialize env 0 \<longrightarrow> ExecutorInitialize \<notin> set (trace st))"
proof -
  have "\<exists>rc st. GuiMain env ins = Some (rc, st) \<and> (two_phases st \<and> single_attempt env st) \<and>
      (rc = None \<or> rc = Some 0 \<or> rc = Some 1 \<and> early st)"
    by (rule GuiMain_invariant [where I = "\<lambda>s. two_phases s \<and> single_attempt env s"])
      (auto intro: two_phases_early two_phases_entry two_phases_step two_phases_leave
         single_attempt_early single_attempt_entry single_attempt_step single_attempt_leave)
  then obtain rc st where run: "GuiMain env ins = Some (rc, st)"
    and *: "only_after (\<lambda>a. a = BaseInitialize True) (\<lambda>a. a = ExecutorInitialize) (trace st)"
    and **: "\<forall>b. BaseInitialize b \<in> set (trace st) \<longrightarrow> b = baseInitialize env 0"
    by (auto simp: two_phases_def single_attempt_def)
  from only_after_ex [OF *] ** have "\<not> baseInitialize env 0 \<longrightarrow> ExecutorInitialize \<notin> set (trace st)"
    by (auto simp: list_ex_iff)
  with run * show ?thesis by blast
qed

theorem full_init_after_base_init_witness:
  "GuiMain env_example session_example = Some (Some 0, session_final) \<and>
   only_after (\<lambda>a. a = BaseInitialize True) (\<lambda>a. a = ExecutorInitialize) (trace session_final) \<and>
   ExecutorInitialize \<in> set (trace session_final) \<and> baseInitialize env_example 0 \<and>
   (\<exists>st. GuiMain (env_example\<lparr>baseInitialize := (\<lambda>n. False)\<rparr>) [Run NodeThread, Run ExecutorThread] =
           Some (None, st) \<and> ExecutorInitialize \<notin> set (trace st))"
proof -
  have "ExecutorInitialize \<in> set (trace session_final)" "baseInitialize env_example 0"
    "\<not> baseInitialize (env_example\<lparr>baseInitialize := (\<lambda>n. False)\<rparr>) 0"
    by (simp_all add: session_final_def session_trace_def env_example_def)
  moreover have "\<exists>st. GuiMain (env_example\<lparr>baseInitialize := (\<lambda>n. False)\<rparr>)
      [Run NodeThread, Run ExecutorThread] = Some (None, st)"
    by (simp add: GuiMain_running [where err = None] env_example_def step_defs loop_entry_def
        initial_state_def)
  ultimately show ?thesis
    using full_init_after_base_init [of env_example session_example]
      full_init_after_base_init [of "env_example\<lparr>baseInitialize := (\<lambda>n. False)\<rparr>"
        "[Run NodeThread, Run ExecutorThread]"]
      GuiMain_session_example
    by auto
qed

subsection \<open>Showing the window\<close>

lemma shown_after_success_step:
  assumes "wired_state st" "shown_after_success st" "step env i st = Some st'"
  shows "shown_after_success st'"
  using assms(1,3)
  by (cases rule: step_cases)
    (use assms(2) in \<open>auto simp: shown_after_success_def effect_defs trace_simps is_show_def
       is_initSuccess_def only_after_map_none\<close>)

lemma shown_after_success_leave: "shown_after_success st \<Longrightarrow> shown_after_success (st\<lparr>in_exec := False\<rparr>)"
  by (simp add: shown_after_success_def)

lemma shown_after_success_entry: "shown_after_success (loop_entry env)"
  by (auto simp: shown_after_success_def loop_entry_def initial_state_def ctor_trace_def is_show_def
      is_initSuccess_def split: sum.splits option.splits)

lemma shown_after_success_early:
  assumes "early st"
  shows "shown_after_success st"
proof -
  have "\<forall>a\<in>set (trace st). \<not> is_show a \<and> \<not> is_initSuccess a"
    by (auto elim!: early_actions [OF assms] simp: is_show_def is_initSuccess_def)
  with assms show ?thesis
    by (auto simp: shown_after_success_def early_def list_ex_iff intro!: only_after_none)
qed

lemma show_when_init_succeeds:
  assumes "fst (ParseParameters env)" "InitConfig env = Inr err" "InitLogging env = None"
    "InitParameterInteraction env = None" "MakeNode env = None"
    "baseInitialize env 0" "fst (appInitMain env 0)"
  shows "\<exists>st. GuiMain env [Run NodeThread, Run ExecutorThread, Run NodeThread, Run GuiThread] = Some (None, st) \<and>
    visible st"
proof -
  obtain tip where "appInitMain env 0 = (True, tip)"
    using assms(7) by (cases "appInitMain env 0") auto
  with assms(6) show ?thesis
    by (simp add: GuiMain_running [OF assms(1-5)] step_defs loop_entry_def initial_state_def)
qed

text \<open>
  Claim C4: in every run the window is shown only after the worker has emitted
  \<open>initSuccess\<close>; when the full initialisation reports failure the window is never
  shown; and when it reports success (nothing else having failed) the window is shown as
  soon as the threads have handled their events.
\<close>

theorem window_shown_iff_init_success:
  "(\<exists>rc st. GuiMain env ins = Some (rc, st) \<and>
      only_after is_initSuccess is_show (trace st) \<and>
      (visible st \<longrightarrow> list_ex is_show (trace st)) \<and>
      (\<not> fst (appInitMain env 0) \<longrightarrow> \<not> list_ex is_show (trace st) \<and> \<not> visible st)) \<and>
   (fst (ParseParameters env) \<and> (\<exists>err. InitConfig env = Inr err) \<and> InitLogging env = None \<and>
    InitParameterInteraction env = None \<and> MakeNode env = None \<and>
    baseInitialize env 0 \<and> fst (appInitMain env 0) \<longrightarrow>
      (\<exists>st'. GuiMain env [Run NodeThread, Run ExecutorThread, Run NodeThread, Run GuiThread] =
               Some (None, st') \<and> visible st'))"
proof -
  have "\<exists>rc st. GuiMain env ins = Some (rc, st) \<and> (shown_after_success st \<and> single_attempt env st) \<and>
      (rc = None \<or> rc = Some 0 \<or> rc = Some 1 \<and> early st)"
    by (rule GuiMain_invariant [where I = "\<lambda>s. shown_after_success s \<and> single_attempt env s"])
      (auto intro: shown_after_success_early shown_after_success_entry shown_after_success_step
         shown_after_success_leave single_attempt_early single_attempt_entry single_attempt_step
         single_attempt_leave)
  then obtain rc st where run: "GuiMain env ins = Some (rc, st)"
    and 1: "shown_after_success st" and 2: "single_attempt env st"
    by blast
  from 1 have oa: "only_after is_initSuccess is_show (trace st)"
    and vis: "visible st \<longrightarrow> list_ex is_show (trace st)"
    and succ: "list_ex is_initSuccess (trace st) \<longrightarrow> AppInitMain True \<in> set (trace st)"
    by (simp_all add: shown_after_success_def)
  from 2 have "AppInitMain True \<in> set (trace st) \<longrightarrow> fst (appInitMain env 0)"
    by (auto simp: single_attempt_def)
  with succ only_after_ex [OF oa] have "list_ex is_show (trace st) \<longrightarrow> fst (appInitMain env 0)"
    by blast
  with run oa vis have "\<exists>rc st. GuiMain env ins = Some (rc, st) \<and>
      only_after is_initSuccess is_show (trace st) \<and>
      (visible st \<longrightarrow> list_ex is_show (trace st)) \<and>
      (\<not> fst (appInitMain env 0) \<longrightarrow> \<not> list_ex is_show (trace st) \<and> \<not> visible st)"
    by blast
  moreover have "fst (ParseParameters env) \<and> (\<exists>err. InitConfig env = Inr err) \<and> InitLogging env = None \<and>
          InitParameterInteraction env = None \<and> MakeNode env = None \<and>
          baseInitialize env 0 \<and> fst (appInitMain env 0) \<longrightarrow>
            (\<exists>st'. GuiMain env [Run NodeThread, Run ExecutorThread, Run NodeThread, Run GuiThread] =
                     Some (None, st') \<and> visible st')"
    using show_when_init_succeeds by blast
  ultimately show ?thesis by blast
qed

theorem window_shown_iff_init_success_witness:
  "GuiMain env_example session_example = Some (Some 0, session_final) \<and>
   only_after is_initSuccess is_show (trace session_final) \<and>
   visible session_final \<and> list_ex is_show (trace session_final) \<and>
   fst (appInitMain env_example 0) \<and>
   (\<exists>st'. GuiMain env_example [Run NodeThread, Run ExecutorThread, Run NodeThread, Run GuiThread] =
            Some (None, st') \<and> visible st') \<and>
   (\<exists>st. GuiMain (env_example\<lparr>appInitMain := (\<lambda>n. (False, \<lparr>header_height = 0\<rparr>))\<rparr>)
            [Run NodeThread, Run ExecutorThread, Run NodeThread, Run NodeThread] = Some (None, st) \<and>
         \<not> list_ex is_show (trace st) \<and> \<not> visible st)"
proof -
  let ?fail = "env_example\<lparr>appInitMain := (\<lambda>n. (False, \<lparr>header_height = 0\<rparr>))\<rparr>"
  have ok: "fst (ParseParameters env_example)" "\<exists>err. InitConfig env_example = Inr err"
    "InitLogging env_example = None" "InitParameterInteraction env_example = None"
    "MakeNode env_example = None" "baseInitialize env_example 0" "fst (appInitMain env_example 0)"
    "visible session_final" "\<not> fst (appInitMain ?fail 0)"
    by (simp_all add: env_example_def session_final_def)
  from window_shown_iff_init_success [of env_example session_example]
    window_shown_iff_init_success
      [of ?fail "[Run NodeThread, Run ExecutorThread, Run NodeThread, Run NodeThread]"]
    GuiMain_session_example failing_init_example ok
  show ?thesis by auto
qed

subsection \<open>Listing the commands\<close>

lemma logs_ok_append:
  "logs_ok xs \<Longrightarrow> \<not> begins_with_log ys \<Longrightarrow> logs_ok (xs @ ys) = logs_ok ys"
proof (induction xs)
  case Nil
  then show ?case by simp
next
  case (Cons a xs)
  have "take (length cs) (xs @ ys) = map (\<lambda>cmd. Log Debug [Str cmd]) cs \<and>
        \<not> begins_with_log (drop (length cs) (xs @ ys))"
    if "take (length cs) xs = map (\<lambda>cmd. Log Debug [Str cmd]) cs"
      and "\<not> begins_with_log (drop (length cs) xs)" for cs
  proof -
    from that(1) have "length (take (length cs) xs) = length cs" by simp
    then have len: "length cs \<le> length xs" by simp
    with that Cons.prems(2) show ?thesis
      by (cases "drop (length cs) xs") (auto simp: begins_with_log_def)
  qed
  with Cons show ?case
    by (auto simp: list_all_iff)
qed

lemma logs_ok_none: "\<forall>a\<in>set xs. received_by a = [] \<Longrightarrow> logs_ok xs"
  by (induction xs) auto

lemma logs_ok_log_lines: "logs_ok (map (\<lambda>cmd. Log s (f cmd)) cs)"
  by (rule logs_ok_none) (auto simp: received_by_def)

lemma concat_map_Nil: "concat (map (\<lambda>x. []) xs) = []"
  by (induction xs) simp_all

lemma commands_relayed_step:
  assumes "wired_state st" "commands_relayed env st" "step env i st = Some st'"
  shows "commands_relayed env st'"
  using assms(1,3)
  by (cases rule: step_cases)
    (use assms(2) in \<open>auto simp: commands_relayed_def effect_defs logs_ok_append begins_with_log_def
       received_by_def received_def queried_def clicks_def pending_commands_def pending_queries_def
       delivered_by_def logs_ok_log_lines comp_def concat_map_Nil\<close>)

lemma commands_relayed_leave: "commands_relayed env st \<Longrightarrow> commands_relayed env (st\<lparr>in_exec := False\<rparr>)"
  by (simp add: commands_relayed_def)

lemma commands_relayed_entry: "commands_relayed env (loop_entry env)"
  by (auto simp: commands_relayed_def loop_entry_def initial_state_def ctor_trace_def
      received_by_def received_def queried_def clicks_def pending_commands_def pending_queries_def
      begins_with_log_def split: sum.splits option.splits)

lemma commands_relayed_early:
  assumes "early st"
  shows "commands_relayed env st"
proof -
  have 1: "\<forall>a\<in>set (trace st). received_by a = []"
    by (auto elim!: early_actions [OF assms] simp: received_by_def)
  then have 2: "received (trace st) = []"
    by (simp add: received_def)
  have 3: "queried (trace st) = []"
    by (auto elim!: early_actions [OF assms] simp: queried_def)
  have 4: "clicks (trace st) = 0"
    by (auto elim!: early_actions [OF assms] simp: clicks_def filter_empty_conv)
  from 1 2 3 4 assms show ?thesis
    by (simp add: commands_relayed_def early_def logs_ok_none pending_commands_def pending_queries_def)
qed

text \<open>
  Claim C5: \<open>rcvCommands\<close> logs the strings it is given, one line each, in their
  order and nothing else. In every run the worker has queried \<open>listRpcCommands()\<close>
  once for each click it has handled (the clicks are the queries made and the queries
  waiting in the worker's queue), and the lists the window has received, followed by
  those waiting in its queue, are the results of those queries in order; each list
  received is followed in the log by exactly its strings. And whenever the event loop
  runs and nothing waits in the queues of the window and the worker, a click, a turn of
  the worker's thread and a turn of the GUI thread do just this: one query, whose
  result is logged string by string.
\<close>

theorem commands_logged_as_returned:
  "trace (BitcoinGUI_rcvCommands (Commands cs) s) = trace s @ map (\<lambda>cmd. Log Debug [Str cmd]) cs \<and>
   (\<exists>rc st. GuiMain env ins = Some (rc, st) \<and>
      logs_ok (trace st) \<and>
      queried (trace st) = map (listRpcCommands env) [0..<length (queried (trace st))] \<and>
      length (queried (trace st)) + pending_queries (queues st NodeThread) = clicks (trace st) \<and>
      received (trace st) @ pending_commands (queues st GuiThread) = queried (trace st) \<and>
      (rc = None \<and> queues st GuiThread = [] \<and> queues st NodeThread = [] \<longrightarrow>
         (\<exists>st'. GuiMain env (ins @ [Click, Run NodeThread, Run GuiThread]) = Some (None, st') \<and>
            trace st' = trace st @
              [Emit Button M_clicked NoArg, Call Window M_listCommands NoArg,
               Emit Window M_listCommands NoArg, Call Worker M_listCommands NoArg,
               Log Debug [Str ''NodeController::listCommands()'', Tid NodeThread],
               ListRpcCommands (listRpcCommands env (length (queried (trace st)))),
               Emit Worker M_commands (Commands (listRpcCommands env (length (queried (trace st))))),
               Call Window M_rcvCommands (Commands (listRpcCommands env (length (queried (trace st)))))] @
              map (\<lambda>cmd. Log Debug [Str cmd]) (listRpcCommands env (length (queried (trace st)))))))"
proof -
  have "fold (\<lambda>cmd. qDebug [Str cmd]) cs s = record_actions (map (\<lambda>cmd. Log Debug [Str cmd]) cs) s" for s
    by (induction cs arbitrary: s) (simp_all add: record_actions_def qDebug_def record_action_def)
  then have 1: "trace (BitcoinGUI_rcvCommands (Commands cs) s) =
      trace s @ map (\<lambda>cmd. Log Debug [Str cmd]) cs"
    by (simp add: BitcoinGUI_rcvCommands_def record_actions_def del: fold_simps)
  obtain rc st where run: "GuiMain env ins = Some (rc, st)"
    using GuiMain_total [of env ins] by blast
  have "commands_relayed env st \<and>
      (rc = None \<longrightarrow> wired_state st \<and>
        (\<forall>st'. event_loop env [Click, Run NodeThread, Run GuiThread] st = Some (None, st') \<longrightarrow>
           GuiMain env (ins @ [Click, Run NodeThread, Run GuiThread]) = Some (None, st')))"
    using run
  proof (cases rule: GuiMain_cases)
    case early
    then show ?thesis by (simp add: commands_relayed_early)
  next
    case (running rc')
    from running(1) wired_loop_entry commands_relayed_entry have "commands_relayed env st"
      by (rule event_loop_invariant) (auto intro: commands_relayed_step commands_relayed_leave)
    moreover have "rc = None \<longrightarrow> wired_state st \<and>
        (\<forall>st'. event_loop env [Click, Run NodeThread, Run GuiThread] st = Some (None, st') \<longrightarrow>
           GuiMain env (ins @ [Click, Run NodeThread, Run GuiThread]) = Some (None, st'))"
    proof (intro impI conjI allI)
      assume "rc = None"
      with running(2) have none: "rc' = None" by (cases rc') simp_all
      with running(1) wired_loop_entry show "wired_state st"
        by (auto intro: event_loop_wired)
      fix st'
      assume "event_loop env [Click, Run NodeThread, Run GuiThread] st = Some (None, st')"
      with running(1) none
      have "event_loop env (ins @ [Click, Run NodeThread, Run GuiThread]) (loop_entry env) =
          Some (None, st')"
        by (simp add: event_loop_append)
      then show "GuiMain env (ins @ [Click, Run NodeThread, Run GuiThread]) = Some (None, st')"
        by (simp add: running(3))
    qed
    ultimately show ?thesis by blast
  qed
  then have inv: "commands_relayed env st"
    and next_click: "rc = None \<longrightarrow> wired_state st \<and>
      (\<forall>st'. event_loop env [Click, Run NodeThread, Run GuiThread] st = Some (None, st') \<longrightarrow>
         GuiMain env (ins @ [Click, Run NodeThread, Run GuiThread]) = Some (None, st'))"
    by blast+
  from inv have n: "n_listRpcCommands st = length (queried (trace st))"
    by (simp add: commands_relayed_def)
  have "\<exists>st'. GuiMain env (ins @ [Click, Run NodeThread, Run GuiThread]) = Some (None, st') \<and>
            trace st' = trace st @
              [Emit Button M_clicked NoArg, Call Window M_listCommands NoArg,
               Emit Window M_listCommands NoArg, Call Worker M_listCommands NoArg,
               Log Debug [Str ''NodeController::listCommands()'', Tid NodeThread],
               ListRpcCommands (listRpcCommands env (length (queried (trace st)))),
               Emit Worker M_commands (Commands (listRpcCommands env (length (queried (trace st))))),
               Call Window M_rcvCommands (Commands (listRpcCommands env (length (queried (trace st)))))] @
              map (\<lambda>cmd. Log Debug [Str cmd]) (listRpcCommands env (length (queried (trace st))))"
    if "rc = None" "queues st GuiThread = []" "queues st NodeThread = []"
  proof -
    from next_click that(1) have w: "wired_state st"
      and lift: "\<And>st'. event_loop env [Click, Run NodeThread, Run GuiThread] st = Some (None, st') \<Longrightarrow>
         GuiMain env (ins @ [Click, Run NodeThread, Run GuiThread]) = Some (None, st')"
      by blast+
    from click_to_log [OF w that(2,3), of env] lift show ?thesis
      unfolding n by blast
  qed
  with 1 run inv n show ?thesis
    by (auto simp: commands_relayed_def)
qed

theorem commands_logged_as_returned_witness:
  "GuiMain env_example session_started = Some (None, started_final) \<and>
   queues started_final GuiThread = [] \<and> queues started_final NodeThread = [] \<and>
   queried (trace started_final) = [] \<and>
   listRpcCommands env_example 0 = [''help'', ''stop''] \<and>
   (\<exists>st'. GuiMain env_example (session_started @ [Click, Run NodeThread, Run GuiThread]) = Some (None, st') \<and>
      trace st' = trace started_final @
        [Emit Button M_clicked NoArg, Call Window M_listCommands NoArg,
         Emit Window M_listCommands NoArg, Call Worker M_listCommands NoArg,
         Log Debug [Str ''NodeController::listCommands()'', Tid NodeThread],
         ListRpcCommands [''help'', ''stop''],
         Emit Worker M_commands (Commands [''help'', ''stop'']),
         Call Window M_rcvCommands (Commands [''help'', ''stop'']),
         Log Debug [Str ''help''], Log Debug [Str ''stop'']])"
proof -
  have facts: "queues started_final GuiThread = []" "queues started_final NodeThread = []"
    "queried (trace started_final) = []" "listRpcCommands env_example 0 = [''help'', ''stop'']"
    by (simp_all add: started_final_def session_trace_def queried_def ctor_trace_def env_example_def)
  with commands_logged_as_returned [where env = env_example and ins = session_started]
    GuiMain_session_started
  show ?thesis by auto
qed

subsection \<open>The connection made twice\<close>

lemma delivered_twice_step:
  assumes "wired_state st" "delivered_twice st" "step env i st = Some st'"
  shows "delivered_twice st'"
  using assms(1,3)
  by (cases rule: step_cases)
    (use assms(2) in \<open>auto simp: delivered_twice_def effect_defs is_show_def is_initSuccess_def
       is_result_handled_def is_result_emitted_def is_result_event_def filter_map comp_def\<close>)

lemma delivered_twice_leave: "delivered_twice st \<Longrightarrow> delivered_twice (st\<lparr>in_exec := False\<rparr>)"
  by (simp add: delivered_twice_def)

lemma delivered_twice_entry: "delivered_twice (loop_entry env)"
  by (auto simp: delivered_twice_def loop_entry_def initial_state_def ctor_trace_def is_show_def
      is_initSuccess_def is_result_handled_def is_result_emitted_def is_result_event_def
      split: sum.splits option.splits)

lemma delivered_twice_early:
  assumes "early st"
  shows "delivered_twice st"
proof -
  have "filter P (trace st) = []" if "\<And>s items. \<not> P (Log s items)" "\<And>f. \<not> P (Called f)"
    "\<And>c. \<not> P (AppExit c)" for P
    using that by (auto simp: filter_empty_conv elim!: early_actions [OF assms])
  then show ?thesis
    using assms
    by (simp add: delivered_twice_def early_def is_show_def is_initSuccess_def is_result_handled_def
        is_result_emitted_def)
qed


lemma result_twice:
  assumes "wired_state st" "queues st ExecutorThread = InitializeJob # es" "queues st NodeThread = []"
    and "appInitMain env (n_appInitMain st) = (rv, tip)"
  shows "\<exists>s1 s2 s3. step env (Run ExecutorThread) st = Some s1 \<and>
     step env (Run NodeThread) s1 = Some s2 \<and> step env (Run NodeThread) s2 = Some s3 \<and>
     wired_state s3 \<and>
     queues s2 NodeThread = [MetaCall Worker M_initializeResult (InitResult rv tip)] \<and>
     exit_code s2 = (if rv then exit_code st else Some 1) \<and>
     exit_code s3 = (if rv then exit_code st else Some 1) \<and>
     trace s2 = trace st @
       [AppInitMain rv, Emit Executor M_initializeResult (InitResult rv tip),
        Call Worker M_initializeResult (InitResult rv tip),
        Log Debug [Str ''NodeController::initializeResult() => header_height:'', Num (header_height tip)]] @
       (if rv then [Emit Worker M_initSuccess NoArg]
        else [Emit Worker M_initFail NoArg, Call Worker M_onInitFail NoArg,
              Log Debug [Str ''NodeController::onInitFail() '', Tid NodeThread], AppExit 1]) \<and>
     trace s3 = trace s2 @
       [Call Worker M_initializeResult (InitResult rv tip),
        Log Debug [Str ''NodeController::initializeResult() => header_height:'', Num (header_height tip)]] @
       (if rv then [Emit Worker M_initSuccess NoArg]
        else [Emit Worker M_initFail NoArg, Call Worker M_onInitFail NoArg,
              Log Debug [Str ''NodeController::onInitFail() '', Tid NodeThread], AppExit 1]) \<and>
     queues s3 NodeThread = [] \<and>
     queues s3 GuiThread = queues st GuiThread @
       (if rv then [MetaCall Window M_show NoArg, MetaCall Window M_show NoArg] else [])"
proof -
  let ?d = "MetaCall Worker M_initializeResult (InitResult rv tip)"
  define s1 where "s1 = postEvent NodeThread ?d (postEvent NodeThread ?d
        (record_actions [AppInitMain rv, Emit Executor M_initializeResult (InitResult rv tip)]
          (pop ExecutorThread st\<lparr>n_appInitMain := Suc (n_appInitMain st)\<rparr>)))"
  have 1: "step env (Run ExecutorThread) st = Some s1"
    unfolding s1_def using assms(1,2,4) by (rule step_InitializeJob)
  have w1: "wired_state s1" using step_wired [OF assms(1) 1] .
  have q1: "queues s1 NodeThread = ?d # [?d]"
    using assms(3) by (simp add: s1_def effect_defs)
  note 2 = step_initializeResult [OF w1 q1, of env]
  then obtain s2 where s2: "step env (Run NodeThread) s1 = Some s2" by blast
  have w2: "wired_state s2" using step_wired [OF w1 s2] .
  have q2: "queues s2 NodeThread = ?d # []"
    using 2 s2 q1 by (auto simp: effect_defs split: if_splits)
  note 3 = step_initializeResult [OF w2 q2, of env]
  then obtain s3 where s3: "step env (Run NodeThread) s2 = Some s3" by blast
  have w3: "wired_state s3" using step_wired [OF w2 s3] .
  have t2: "trace s2 = trace st @
       [AppInitMain rv, Emit Executor M_initializeResult (InitResult rv tip),
        Call Worker M_initializeResult (InitResult rv tip),
        Log Debug [Str ''NodeController::initializeResult() => header_height:'', Num (header_height tip)]] @
       (if rv then [Emit Worker M_initSuccess NoArg]
        else [Emit Worker M_initFail NoArg, Call Worker M_onInitFail NoArg,
              Log Debug [Str ''NodeController::onInitFail() '', Tid NodeThread], AppExit 1])"
    and e2: "exit_code s2 = (if rv then exit_code st else Some 1)"
    and g2: "queues s2 GuiThread = queues st GuiThread @ (if rv then [MetaCall Window M_show NoArg] else [])"
    using 2 s2 by (auto simp: s1_def effect_defs split: if_splits)
  have t3: "trace s3 = trace s2 @
       [Call Worker M_initializeResult (InitResult rv tip),
        Log Debug [Str ''NodeController::initializeResult() => header_height:'', Num (header_height tip)]] @
       (if rv then [Emit Worker M_initSuccess NoArg]
        else [Emit Worker M_initFail NoArg, Call Worker M_onInitFail NoArg,
              Log Debug [Str ''NodeController::onInitFail() '', Tid NodeThread], AppExit 1])"
    and e3: "exit_code s3 = (if rv then exit_code s2 else Some 1)"
    and q3: "queues s3 NodeThread = []"
    and g3: "queues s3 GuiThread = queues s2 GuiThread @ (if rv then [MetaCall Window M_show NoArg] else [])"
    using 3 s3 q2 by (auto simp: effect_defs split: if_splits)
  from 1 s2 s3 w3 q2 e2 e3 t2 t3 q3 g2 g3 show ?thesis by auto
qed


lemma result_once:
  assumes "wired_state st" "queues st ExecutorThread = InitializeJob # es" "queues st NodeThread = []"
    and "appInitMain env (n_appInitMain st) = (False, tip)"
  shows "\<exists>st'. event_loop env [Run ExecutorThread, Run NodeThread, LoopCondition] st = Some (Some 1, st') \<and>
     trace st' = trace st @
       [AppInitMain False, Emit Executor M_initializeResult (InitResult False tip),
        Call Worker M_initializeResult (InitResult False tip),
        Log Debug [Str ''NodeController::initializeResult() => header_height:'', Num (header_height tip)],
        Emit Worker M_initFail NoArg, Call Worker M_onInitFail NoArg,
        Log Debug [Str ''NodeController::onInitFail() '', Tid NodeThread], AppExit 1] \<and>
     queues st' NodeThread = [MetaCall Worker M_initializeResult (InitResult False tip)]"
proof -
  from result_twice [OF assms] obtain s1 s2 where
    "step env (Run ExecutorThread) st = Some s1" "step env (Run NodeThread) s1 = Some s2"
    "queues s2 NodeThread = [MetaCall Worker M_initializeResult (InitResult False tip)]"
    "exit_code s2 = Some 1"
    "trace s2 = trace st @
       [AppInitMain False, Emit Executor M_initializeResult (InitResult False tip),
        Call Worker M_initializeResult (InitResult False tip),
        Log Debug [Str ''NodeController::initializeResult() => header_height:'', Num (header_height tip)],
        Emit Worker M_initFail NoArg, Call Worker M_onInitFail NoArg,
        Log Debug [Str ''NodeController::onInitFail() '', Tid NodeThread], AppExit 1]"
    by auto
  then show ?thesis by simp
qed

lemma result_failure_twice:
  assumes "wired_state st" "queues st ExecutorThread = InitializeJob # es" "queues st NodeThread = []"
    and "appInitMain env (n_appInitMain st) = (False, tip)"
  shows "\<exists>st'. event_loop env [Run ExecutorThread, Run NodeThread, Run NodeThread] st = Some (None, st') \<and>
     trace st' = trace st @
       [AppInitMain False, Emit Executor M_initializeResult (InitResult False tip),
        Call Worker M_initializeResult (InitResult False tip),
        Log Debug [Str ''NodeController::initializeResult() => header_height:'', Num (header_height tip)],
        Emit Worker M_initFail NoArg, Call Worker M_onInitFail NoArg,
        Log Debug [Str ''NodeController::onInitFail() '', Tid NodeThread], AppExit 1,
        Call Worker M_initializeResult (InitResult False tip),
        Log Debug [Str ''NodeController::initializeResult() => header_height:'', Num (header_height tip)],
        Emit Worker M_initFail NoArg, Call Worker M_onInitFail NoArg,
        Log Debug [Str ''NodeController::onInitFail() '', Tid NodeThread], AppExit 1] \<and>
     queues st' NodeThread = []"
proof -
  from result_twice [OF assms] obtain s1 s2 s3 where
    "step env (Run ExecutorThread) st = Some s1" "step env (Run NodeThread) s1 = Some s2"
    "step env (Run NodeThread) s2 = Some s3" "queues s3 NodeThread = []"
    "trace s3 = trace st @
       [AppInitMain False, Emit Executor M_initializeResult (InitResult False tip),
        Call Worker M_initializeResult (InitResult False tip),
        Log Debug [Str ''NodeController::initializeResult() => header_height:'', Num (header_height tip)],
        Emit Worker M_initFail NoArg, Call Worker M_onInitFail NoArg,
        Log Debug [Str ''NodeController::onInitFail() '', Tid NodeThread], AppExit 1,
        Call Worker M_initializeResult (InitResult False tip),
        Log Debug [Str ''NodeController::initializeResult() => header_height:'', Num (header_height tip)],
        Emit Worker M_initFail NoArg, Call Worker M_onInitFail NoArg,
        Log Debug [Str ''NodeController::onInitFail() '', Tid NodeThread], AppExit 1]"
    by auto
  then show ?thesis by simp
qed

lemma result_success_twice:
  assumes "wired_state st" "queues st ExecutorThread = InitializeJob # es" "queues st NodeThread = []"
    and "appInitMain env (n_appInitMain st) = (True, tip)" and "queues st GuiThread = []"
  shows "\<exists>st'. event_loop env
       [Run ExecutorThread, Run NodeThread, Run NodeThread, Run GuiThread, Run GuiThread] st =
       Some (None, st') \<and>
     trace st' = trace st @
       [AppInitMain True, Emit Executor M_initializeResult (InitResult True tip),
        Call Worker M_initializeResult (InitResult True tip),
        Log Debug [Str ''NodeController::initializeResult() => header_height:'', Num (header_height tip)],
        Emit Worker M_initSuccess NoArg,
        Call Worker M_initializeResult (InitResult True tip),
        Log Debug [Str ''NodeController::initializeResult() => header_height:'', Num (header_height tip)],
        Emit Worker M_initSuccess NoArg,
        Call Window M_show NoArg, Call Window M_show NoArg] \<and>
     visible st'"
proof -
  from result_twice [OF assms(1-4)] assms(5) obtain s1 s2 s3 where
    s: "step env (Run ExecutorThread) st = Some s1" "step env (Run NodeThread) s1 = Some s2"
    "step env (Run NodeThread) s2 = Some s3"
    and w3: "wired_state s3"
    and q3: "queues s3 GuiThread = MetaCall Window M_show NoArg # [MetaCall Window M_show NoArg]"
    and t3: "trace s3 = trace st @
       [AppInitMain True, Emit Executor M_initializeResult (InitResult True tip),
        Call Worker M_initializeResult (InitResult True tip),
        Log Debug [Str ''NodeController::initializeResult() => header_height:'', Num (header_height tip)],
        Emit Worker M_initSuccess NoArg,
        Call Worker M_initializeResult (InitResult True tip),
        Log Debug [Str ''NodeController::initializeResult() => header_height:'', Num (header_height tip)],
        Emit Worker M_initSuccess NoArg]"
    by auto
  define s4 where "s4 = record_actions [Call Window M_show NoArg] (pop GuiThread s3)\<lparr>visible := True\<rparr>"
  have 4: "step env (Run GuiThread) s3 = Some s4"
    unfolding s4_def using w3 q3 by (rule step_window_show)
  have w4: "wired_state s4" using step_wired [OF w3 4] .
  have q4: "queues s4 GuiThread = MetaCall Window M_show NoArg # []"
    using q3 by (simp add: s4_def effect_defs)
  note 5 = step_window_show [OF w4 q4, of env]
  have "trace (record_actions [Call Window M_show NoArg] (pop GuiThread s4)\<lparr>visible := True\<rparr>) =
      trace s3 @ [Call Window M_show NoArg, Call Window M_show NoArg]"
    by (simp add: s4_def effect_defs)
  with s 4 5 t3 show ?thesis by (simp add: effect_defs)
qed

text \<open>
  Claim C10, amended: the constructor of the worker connects the executor's
  \<open>initializeResult\<close> to \<open>NodeWorker::initializeResult\<close> twice, so each result
  the executor emits is queued for that slot twice: in every run the deliveries handled
  and those waiting in the worker's queue are twice the results emitted. Each delivery
  handled emits \<open>initSuccess\<close> on success, and each of those shows the window once
  more; on failure it emits \<open>initFail\<close> and calls \<open>onInitFail\<close>, which calls
  \<open>exit(1)\<close>. Whenever the executor is about to run the initialisation and the worker
  and the window have nothing waiting, the result is handled twice once the worker has
  had two turns: on success \<open>initSuccess\<close> is emitted twice and the window is shown
  twice, on failure \<open>initFail\<close> is emitted twice and \<open>exit(1)\<close> is called twice.
  The slot need not run twice, though: on failure the first \<open>exit(1)\<close> ends the event
  loop when its condition is checked before the worker's second turn, and \<open>GuiMain\<close>
  returns with the slot invoked once and the second delivery still in the queue.
\<close>

theorem initializeResult_delivered_twice:
  "(NodeWorker_NodeWorker env s = Inr s' \<longrightarrow>
      count_list (connections s') (Executor, M_initializeResult, Worker, M_initializeResult) =
      count_list (connections s) (Executor, M_initializeResult, Worker, M_initializeResult) + 2) \<and>
   trace (NodeWorker_onInitFail t s) =
      trace s @ [Log Debug [Str ''NodeController::onInitFail() '', Tid t], AppExit 1] \<and>
   (\<exists>rc st. GuiMain env ins = Some (rc, st) \<and>
      length (filter (is_result_handled True) (trace st)) +
        length (filter (is_result_event True) (queues st NodeThread)) =
        2 * length (filter (is_result_emitted True) (trace st)) \<and>
      length (filter (is_result_handled False) (trace st)) +
        length (filter (is_result_event False) (queues st NodeThread)) =
        2 * length (filter (is_result_emitted False) (trace st)) \<and>
      length (filter is_initSuccess (trace st)) = length (filter (is_result_handled True) (trace st)) \<and>
      length (filter is_show (trace st)) +
        length (filter (\<lambda>e. e = MetaCall Window M_show NoArg) (queues st GuiThread)) =
        length (filter is_initSuccess (trace st)) \<and>
      length (filter (\<lambda>a. a = Emit Worker M_initFail NoArg) (trace st)) =
        length (filter (is_result_handled False) (trace st)) \<and>
      length (filter (\<lambda>a. a = Call Worker M_onInitFail NoArg) (trace st)) =
        length (filter (is_result_handled False) (trace st)) \<and>
      (rc = None \<and> (\<exists>es. queues st ExecutorThread = InitializeJob # es) \<and>
       queues st NodeThread = [] \<and> queues st GuiThread = [] \<longrightarrow>
         (fst (appInitMain env 0) \<longrightarrow>
            (\<exists>st'. GuiMain env
                      (ins @ [Run ExecutorThread, Run NodeThread, Run NodeThread, Run GuiThread, Run GuiThread]) =
                      Some (None, st') \<and>
               trace st' = trace st @
                 [AppInitMain True,
                  Emit Executor M_initializeResult (InitResult True (snd (appInitMain env 0))),
                  Call Worker M_initializeResult (InitResult True (snd (appInitMain env 0))),
                  Log Debug [Str ''NodeController::initializeResult() => header_height:'',
                             Num (header_height (snd (appInitMain env 0)))],
                  Emit Worker M_initSuccess NoArg,
                  Call Worker M_initializeResult (InitResult True (snd (appInitMain env 0))),
                  Log Debug [Str ''NodeController::initializeResult() => header_height:'',
                             Num (header_height (snd (appInitMain env 0)))],
                  Emit Worker M_initSuccess NoArg,
                  Call Window M_show NoArg, Call Window M_show NoArg] \<and>
               visible st')) \<and>
         (\<not> fst (appInitMain env 0) \<longrightarrow>
            (\<exists>st'. GuiMain env (ins @ [Run ExecutorThread, Run NodeThread, Run NodeThread]) = Some (None, st') \<and>
               trace st' = trace st @
                 [AppInitMain False,
                  Emit Executor M_initializeResult (InitResult False (snd (appInitMain env 0))),
                  Call Worker M_initializeResult (InitResult False (snd (appInitMain env 0))),
                  Log Debug [Str ''NodeController::initializeResult() => header_height:'',
                             Num (header_height (snd (appInitMain env 0)))],
                  Emit Worker M_initFail NoArg, Call Worker M_onInitFail NoArg,
                  Log Debug [Str ''NodeController::onInitFail() '', Tid NodeThread], AppExit 1,
                  Call Worker M_initializeResult (InitResult False (snd (appInitMain env 0))),
                  Log Debug [Str ''NodeController::initializeResult() => header_height:'',
                             Num (header_height (snd (appInitMain env 0)))],
                  Emit Worker M_initFail NoArg, Call Worker M_onInitFail NoArg,
                  Log Debug [Str ''NodeController::onInitFail() '', Tid NodeThread], AppExit 1]) \<and>
            (\<exists>st'. GuiMain env (ins @ [Run ExecutorThread, Run NodeThread, LoopCondition]) = Some (Some 0, st') \<and>
               trace st' = trace st @
                 [AppInitMain False,
                  Emit Executor M_initializeResult (InitResult False (snd (appInitMain env 0))),
                  Call Worker M_initializeResult (InitResult False (snd (appInitMain env 0))),
                  Log Debug [Str ''NodeController::initializeResult() => header_height:'',
                             Num (header_height (snd (appInitMain env 0)))],
                  Emit Worker M_initFail NoArg, Call Worker M_onInitFail NoArg,
                  Log Debug [Str ''NodeController::onInitFail() '', Tid NodeThread], AppExit 1] \<and>
               queues st' NodeThread =
                 [MetaCall Worker M_initializeResult (InitResult False (snd (appInitMain env 0)))]))))"
proof -
  obtain rc st where run: "GuiMain env ins = Some (rc, st)"
    using GuiMain_total [of env ins] by blast
  have "delivered_twice st \<and>
      (rc = None \<longrightarrow> wired_state st \<and> single_attempt env st \<and>
        (\<forall>ys rc' st'. event_loop env ys st = Some (rc', st') \<longrightarrow>
           GuiMain env (ins @ ys) = Some (case rc' of None \<Rightarrow> None | Some c \<Rightarrow> Some 0, st')))"
    using run
  proof (cases rule: GuiMain_cases)
    case early
    then show ?thesis by (simp add: delivered_twice_early)
  next
    case (running rc')
    from running(1) wired_loop_entry delivered_twice_entry have "delivered_twice st"
      by (rule event_loop_invariant) (auto intro: delivered_twice_step delivered_twice_leave)
    moreover from running(1) wired_loop_entry single_attempt_entry have "single_attempt env st"
      by (rule event_loop_invariant) (auto intro: single_attempt_step single_attempt_leave)
    moreover have "rc = None \<longrightarrow> wired_state st \<and>
        (\<forall>ys rc' st'. event_loop env ys st = Some (rc', st') \<longrightarrow>
           GuiMain env (ins @ ys) = Some (case rc' of None \<Rightarrow> None | Some c \<Rightarrow> Some 0, st'))"
    proof (intro impI conjI allI)
      assume "rc = None"
      with running(2) have none: "rc' = None" by (cases rc') simp_all
      with running(1) wired_loop_entry show "wired_state st"
        by (auto intro: event_loop_wired)
      fix ys rc'' st'
      assume "event_loop env ys st = Some (rc'', st')"
      with running(1) none
      have "event_loop env (ins @ ys) (loop_entry env) = Some (rc'', st')"
        by (simp add: event_loop_append)
      then show "GuiMain env (ins @ ys) = Some (case rc'' of None \<Rightarrow> None | Some c \<Rightarrow> Some 0, st')"
        by (simp add: running(3))
    qed
    ultimately show ?thesis by blast
  qed
  then have inv: "delivered_twice st"
    and running: "rc = None \<longrightarrow> wired_state st \<and> single_attempt env st \<and>
        (\<forall>ys rc' st'. event_loop env ys st = Some (rc', st') \<longrightarrow>
           GuiMain env (ins @ ys) = Some (case rc' of None \<Rightarrow> None | Some c \<Rightarrow> Some 0, st'))"
    by blast+
  have production: "rc = None \<and> (\<exists>es. queues st ExecutorThread = InitializeJob # es) \<and>
       queues st NodeThread = [] \<and> queues st GuiThread = [] \<longrightarrow>
      (fst (appInitMain env 0) \<longrightarrow>
         (\<exists>st'. GuiMain env
                   (ins @ [Run ExecutorThread, Run NodeThread, Run NodeThread, Run GuiThread, Run GuiThread]) =
                   Some (None, st') \<and>
            trace st' = trace st @
              [AppInitMain True,
               Emit Executor M_initializeResult (InitResult True (snd (appInitMain env 0))),
               Call Worker M_initializeResult (InitResult True (snd (appInitMain env 0))),
               Log Debug [Str ''NodeController::initializeResult() => header_height:'',
                          Num (header_height (snd (appInitMain env 0)))],
               Emit Worker M_initSuccess NoArg,
               Call Worker M_initializeResult (InitResult True (snd (appInitMain env 0))),
               Log Debug [Str ''NodeController::initializeResult() => header_height:'',
                          Num (header_height (snd (appInitMain env 0)))],
               Emit Worker M_initSuccess NoArg,
               Call Window M_show NoArg, Call Window M_show NoArg] \<and>
            visible st')) \<and>
      (\<not> fst (appInitMain env 0) \<longrightarrow>
         (\<exists>st'. GuiMain env (ins @ [Run ExecutorThread, Run NodeThread, Run NodeThread]) = Some (None, st') \<and>
            trace st' = trace st @
              [AppInitMain False,
               Emit Executor M_initializeResult (InitResult False (snd (appInitMain env 0))),
               Call Worker M_initializeResult (InitResult False (snd (appInitMain env 0))),
               Log Debug [Str ''NodeController::initializeResult() => header_height:'',
                          Num (header_height (snd (appInitMain env 0)))],
               Emit Worker M_initFail NoArg, Call Worker M_onInitFail NoArg,
               Log Debug [Str ''NodeController::onInitFail() '', Tid NodeThread], AppExit 1,
               Call Worker M_initializeResult (InitResult False (snd (appInitMain env 0))),
               Log Debug [Str ''NodeController::initializeResult() => header_height:'',
                          Num (header_height (snd (appInitMain env 0)))],
               Emit Worker M_initFail NoArg, Call Worker M_onInitFail NoArg,
               Log Debug [Str ''NodeController::onInitFail() '', Tid NodeThread], AppExit 1]) \<and>
         (\<exists>st'. GuiMain env (ins @ [Run ExecutorThread, Run NodeThread, LoopCondition]) = Some (Some 0, st') \<and>
            trace st' = trace st @
              [AppInitMain False,
               Emit Executor M_initializeResult (InitResult False (snd (appInitMain env 0))),
               Call Worker M_initializeResult (InitResult False (snd (appInitMain env 0))),
               Log Debug [Str ''NodeController::initializeResult() => header_height:'',
                          Num (header_height (snd (appInitMain env 0)))],
               Emit Worker M_initFail NoArg, Call Worker M_onInitFail NoArg,
               Log Debug [Str ''NodeController::onInitFail() '', Tid NodeThread], AppExit 1] \<and>
            queues st' NodeThread =
              [MetaCall Worker M_initializeResult (InitResult False (snd (appInitMain env 0)))]))"
    (is "_ \<longrightarrow> ?twice")
  proof (intro impI, elim conjE exE)
    fix es
    assume rc: "rc = None" and qe: "queues st ExecutorThread = InitializeJob # es"
      and qn: "queues st NodeThread = []" and qg: "queues st GuiThread = []"
    from running rc have w: "wired_state st" and once: "single_attempt env st"
      and ext: "\<And>ys rc' st'. event_loop env ys st = Some (rc', st') \<Longrightarrow>
           GuiMain env (ins @ ys) = Some (case rc' of None \<Rightarrow> None | Some c \<Rightarrow> Some 0, st')"
      by blast+
    from once qe have n: "n_appInitMain st = 0"
      by (simp add: single_attempt_def)
    obtain rv tip where r: "appInitMain env 0 = (rv, tip)"
      by (cases "appInitMain env 0")
    show ?twice
    proof (cases rv)
      case True
      with r n have "appInitMain env (n_appInitMain st) = (True, tip)" by simp
      from result_success_twice [OF w qe qn this qg] ext r True show ?thesis
        by fastforce
    next
      case False
      with r n have a: "appInitMain env (n_appInitMain st) = (False, tip)" by simp
      from result_failure_twice [OF w qe qn a] result_once [OF w qe qn a] ext r False
      show ?thesis by fastforce
    qed
  qed
  have ctor: "NodeWorker_NodeWorker env s = Inr s' \<longrightarrow>
      count_list (connections s') (Executor, M_initializeResult, Worker, M_initializeResult) =
      count_list (connections s) (Executor, M_initializeResult, Worker, M_initializeResult) + 2"
    by (auto simp: NodeWorker_NodeWorker_def connect_def split: option.splits)
  have fail: "trace (NodeWorker_onInitFail t s) =
      trace s @ [Log Debug [Str ''NodeController::onInitFail() '', Tid t], AppExit 1]"
    by (simp add: NodeWorker_onInitFail_def QCoreApplication_exit_def qDebug_def record_action_def
        Let_def)
  from inv have counts: "length (filter (is_result_handled True) (trace st)) +
        length (filter (is_result_event True) (queues st NodeThread)) =
        2 * length (filter (is_result_emitted True) (trace st)) \<and>
      length (filter (is_result_handled False) (trace st)) +
        length (filter (is_result_event False) (queues st NodeThread)) =
        2 * length (filter (is_result_emitted False) (trace st)) \<and>
      length (filter is_initSuccess (trace st)) = length (filter (is_result_handled True) (trace st)) \<and>
      length (filter is_show (trace st)) +
        length (filter (\<lambda>e. e = MetaCall Window M_show NoArg) (queues st GuiThread)) =
        length (filter is_initSuccess (trace st)) \<and>
      length (filter (\<lambda>a. a = Emit Worker M_initFail NoArg) (trace st)) =
        length (filter (is_result_handled False) (trace st)) \<and>
      length (filter (\<lambda>a. a = Call Worker M_onInitFail NoArg) (trace st)) =
        length (filter (is_result_handled False) (trace st))"
    unfolding delivered_twice_def by blast
  from run counts production ctor fail show ?thesis by blast
qed

theorem initializeResult_delivered_twice_witness:
  "NodeWorker_NodeWorker env_example initial_state =
     Inr (initial_state\<lparr>constructed := [Worker, Executor],
        connections := [(Worker, M_shutdown, Executor, M_shutdown),
          (Worker, M_baseInitSuccess, Worker, M_initNode),
          (Worker, M_baseInitFail, Worker, M_onBaseInitFail),
          (Worker, M_initFail, Worker, M_onInitFail),
          (Executor, M_initializeResult, Worker, M_initializeResult),
          (Executor, M_initializeResult, Worker, M_initializeResult),
          (Executor, M_shutdownResult, Worker, M_shutdownResult)]\<rparr>) \<and>
   GuiMain env_example session_example = Some (Some 0, session_final) \<and>
   length (filter (is_result_emitted True) (trace session_final)) = 1 \<and>
   length (filter (is_result_handled True) (trace session_final)) = 2 \<and>
   length (filter is_initSuccess (trace session_final)) = 2 \<and>
   length (filter is_show (trace session_final)) = 2 \<and>
   GuiMain (env_example\<lparr>appInitMain := (\<lambda>n. (False, \<lparr>header_height = 0\<rparr>))\<rparr>)
     [Run NodeThread, Run ExecutorThread, Run NodeThread, Run NodeThread] = Some (None, failing_init_final) \<and>
   length (filter (is_result_emitted False) (trace failing_init_final)) = 1 \<and>
   length (filter (is_result_handled False) (trace failing_init_final)) = 2 \<and>
   length (filter (\<lambda>a. a = Call Worker M_onInitFail NoArg) (trace failing_init_final)) = 2 \<and>
   length (filter (\<lambda>a. a = AppExit 1) (trace failing_init_final)) = 2 \<and>
   (\<exists>st. GuiMain env_example [Run NodeThread] = Some (None, st) \<and>
      queues st ExecutorThread = [InitializeJob] \<and> queues st NodeThread = [] \<and>
      queues st GuiThread = [] \<and>
      (\<exists>st'. GuiMain env_example
                ([Run NodeThread] @
                 [Run ExecutorThread, Run NodeThread, Run NodeThread, Run GuiThread, Run GuiThread]) =
                Some (None, st') \<and>
         trace st' = trace st @
           [AppInitMain True,
            Emit Executor M_initializeResult (InitResult True \<lparr>header_height = 7\<rparr>),
            Call Worker M_initializeResult (InitResult True \<lparr>header_height = 7\<rparr>),
            Log Debug [Str ''NodeController::initializeResult() => header_height:'', Num 7],
            Emit Worker M_initSuccess NoArg,
            Call Worker M_initializeResult (InitResult True \<lparr>header_height = 7\<rparr>),
            Log Debug [Str ''NodeController::initializeResult() => header_height:'', Num 7],
            Emit Worker M_initSuccess NoArg,
            Call Window M_show NoArg, Call Window M_show NoArg] \<and>
         visible st')) \<and>
   (\<exists>st. GuiMain (env_example\<lparr>appInitMain := (\<lambda>n. (False, \<lparr>header_height = 0\<rparr>))\<rparr>) [Run NodeThread] =
           Some (None, st) \<and>
      queues st ExecutorThread = [InitializeJob] \<and> queues st NodeThread = [] \<and>
      queues st GuiThread = [] \<and>
      (\<exists>st'. GuiMain (env_example\<lparr>appInitMain := (\<lambda>n. (False, \<lparr>header_height = 0\<rparr>))\<rparr>)
                ([Run NodeThread] @ [Run ExecutorThread, Run NodeThread, Run NodeThread]) =
                Some (None, st') \<and>
         trace st' = trace st @
           [AppInitMain False,
            Emit Executor M_initializeResult (InitResult False \<lparr>header_height = 0\<rparr>),
            Call Worker M_initializeResult (InitResult False \<lparr>header_height = 0\<rparr>),
            Log Debug [Str ''NodeController::initializeResult() => header_height:'', Num 0],
            Emit Worker M_initFail NoArg, Call Worker M_onInitFail NoArg,
            Log Debug [Str ''NodeController::onInitFail() '', Tid NodeThread], AppExit 1,
            Call Worker M_initializeResult (InitResult False \<lparr>header_height = 0\<rparr>),
            Log Debug [Str ''NodeController::initializeResult() => header_height:'', Num 0],
            Emit Worker M_initFail NoArg, Call Worker M_onInitFail NoArg,
            Log Debug [Str ''NodeController::onInitFail() '', Tid NodeThread], AppExit 1]) \<and>
      (\<exists>st'. GuiMain (env_example\<lparr>appInitMain := (\<lambda>n. (False, \<lparr>header_height = 0\<rparr>))\<rparr>)
                ([Run NodeThread] @ [Run ExecutorThread, Run NodeThread, LoopCondition]) =
                Some (Some 0, st') \<and>
         trace st' = trace st @
           [AppInitMain False,
            Emit Executor M_initializeResult (InitResult False \<lparr>header_height = 0\<rparr>),
            Call Worker M_initializeResult (InitResult False \<lparr>header_height = 0\<rparr>),
            Log Debug [Str ''NodeController::initializeResult() => header_height:'', Num 0],
            Emit Worker M_initFail NoArg, Call Worker M_onInitFail NoArg,
            Log Debug [Str ''NodeController::onInitFail() '', Tid NodeThread], AppExit 1] \<and>
         queues st' NodeThread =
           [MetaCall Worker M_initializeResult (InitResult False \<lparr>header_height = 0\<rparr>)]))"
proof -
  let ?failing = "env_example\<lparr>appInitMain := (\<lambda>n. (False, \<lparr>header_height = 0\<rparr>))\<rparr>"
  have ctor: "NodeWorker_NodeWorker env_example initial_state =
     Inr (initial_state\<lparr>constructed := [Worker, Executor],
        connections := [(Worker, M_shutdown, Executor, M_shutdown),
          (Worker, M_baseInitSuccess, Worker, M_initNode),
          (Worker, M_baseInitFail, Worker, M_onBaseInitFail),
          (Worker, M_initFail, Worker, M_onInitFail),
          (Executor, M_initializeResult, Worker, M_initializeResult),
          (Executor, M_initializeResult, Worker, M_initializeResult),
          (Executor, M_shutdownResult, Worker, M_shutdownResult)]\<rparr>)"
    by (simp add: NodeWorker_NodeWorker_def env_example_def connect_def initial_state_def)
  have emitted: "length (filter (is_result_emitted True) (trace session_final)) = 1"
    "length (filter (is_result_emitted False) (trace failing_init_final)) = 1"
    "length (filter (\<lambda>a. a = AppExit 1) (trace failing_init_final)) = 2"
    by (simp_all add: session_final_def session_trace_def failing_init_final_def failing_init_trace_def
        is_result_emitted_def ctor_trace_def env_example_def)
  have empty: "queues session_final NodeThread = []" "queues session_final GuiThread = []"
    "queues failing_init_final NodeThread = []"
    by (simp_all add: session_final_def failing_init_final_def)
  have counts: "GuiMain env_example session_example = Some (Some 0, session_final) \<and>
   length (filter (is_result_emitted True) (trace session_final)) = 1 \<and>
   length (filter (is_result_handled True) (trace session_final)) = 2 \<and>
   length (filter is_initSuccess (trace session_final)) = 2 \<and>
   length (filter is_show (trace session_final)) = 2 \<and>
   GuiMain ?failing [Run NodeThread, Run ExecutorThread, Run NodeThread, Run NodeThread] =
     Some (None, failing_init_final) \<and>
   length (filter (is_result_emitted False) (trace failing_init_final)) = 1 \<and>
   length (filter (is_result_handled False) (trace failing_init_final)) = 2 \<and>
   length (filter (\<lambda>a. a = Call Worker M_onInitFail NoArg) (trace failing_init_final)) = 2 \<and>
   length (filter (\<lambda>a. a = AppExit 1) (trace failing_init_final)) = 2"
    using initializeResult_delivered_twice [where env = env_example and s = initial_state
        and ins = session_example]
      initializeResult_delivered_twice [where env = ?failing
        and ins = "[Run NodeThread, Run ExecutorThread, Run NodeThread, Run NodeThread]"]
      GuiMain_session_example failing_init_example emitted empty
    by auto
  have start: "\<exists>st. GuiMain env_example [Run NodeThread] = Some (None, st) \<and>
      queues st ExecutorThread = [InitializeJob] \<and> queues st NodeThread = [] \<and>
      queues st GuiThread = []"
    by (simp add: GuiMain_running [where err = None] env_example_def step_defs loop_entry_def
        initial_state_def)
  have start_failing: "\<exists>st. GuiMain ?failing [Run NodeThread] = Some (None, st) \<and>
      queues st ExecutorThread = [InitializeJob] \<and> queues st NodeThread = [] \<and>
      queues st GuiThread = []"
    by (simp add: GuiMain_running [where err = None] env_example_def step_defs loop_entry_def
        initial_state_def)
  have a: "fst (appInitMain env_example 0)" "snd (appInitMain env_example 0) = \<lparr>header_height = 7\<rparr>"
    "\<not> fst (appInitMain ?failing 0)" "snd (appInitMain ?failing 0) = \<lparr>header_height = 0\<rparr>"
    by (simp_all add: env_example_def)
  from initializeResult_delivered_twice [where env = env_example and ins = "[Run NodeThread]"] start a(1,2)
  have success: "\<exists>st. GuiMain env_example [Run NodeThread] = Some (None, st) \<and>
      queues st ExecutorThread = [InitializeJob] \<and> queues st NodeThread = [] \<and>
      queues st GuiThread = [] \<and>
      (\<exists>st'. GuiMain env_example
                ([Run NodeThread] @
                 [Run ExecutorThread, Run NodeThread, Run NodeThread, Run GuiThread, Run GuiThread]) =
                Some (None, st') \<and>
         trace st' = trace st @
           [AppInitMain True,
            Emit Executor M_initializeResult (InitResult True \<lparr>header_height = 7\<rparr>),
            Call Worker M_initializeResult (InitResult True \<lparr>header_height = 7\<rparr>),
            Log Debug [Str ''NodeController::initializeResult() => header_height:'', Num 7],
            Emit Worker M_initSuccess NoArg,
            Call Worker M_initializeResult (InitResult True \<lparr>header_height = 7\<rparr>),
            Log Debug [Str ''NodeController::initializeResult() => header_height:'', Num 7],
            Emit Worker M_initSuccess NoArg,
            Call Window M_show NoArg, Call Window M_show NoArg] \<and>
         visible st')"
    by (elim conjE exE) auto
  from initializeResult_delivered_twice [where env = ?failing and ins = "[Run NodeThread]"]
    start_failing a(3,4)
  have failure: "\<exists>st. GuiMain ?failing [Run NodeThread] = Some (None, st) \<and>
      queues st ExecutorThread = [InitializeJob] \<and> queues st NodeThread = [] \<and>
      queues st GuiThread = [] \<and>
      (\<exists>st'. GuiMain ?failing ([Run NodeThread] @ [Run ExecutorThread, Run NodeThread, Run NodeThread]) =
                Some (None, st') \<and>
         trace st' = trace st @
           [AppInitMain False,
            Emit Executor M_initializeResult (InitResult False \<lparr>header_height = 0\<rparr>),
            Call Worker M_initializeResult (InitResult False \<lparr>header_height = 0\<rparr>),
            Log Debug [Str ''NodeController::initializeResult() => header_height:'', Num 0],
            Emit Worker M_initFail NoArg, Call Worker M_onInitFail NoArg,
            Log Debug [Str ''NodeController::onInitFail() '', Tid NodeThread], AppExit 1,
            Call Worker M_initializeResult (InitResult False \<lparr>header_height = 0\<rparr>),
            Log Debug [Str ''NodeController::initializeResult() => header_height:'', Num 0],
            Emit Worker M_initFail NoArg, Call Worker M_onInitFail NoArg,
            Log Debug [Str ''NodeController::onInitFail() '', Tid NodeThread], AppExit 1]) \<and>
      (\<exists>st'. GuiMain ?failing ([Run NodeThread] @ [Run ExecutorThread, Run NodeThread, LoopCondition]) =
                Some (Some 0, st') \<and>
         trace st' = trace st @
           [AppInitMain False,
            Emit Executor M_initializeResult (InitResult False \<lparr>header_height = 0\<rparr>),
            Call Worker M_initializeResult (InitResult False \<lparr>header_height = 0\<rparr>),
            Log Debug [Str ''NodeController::initializeResult() => header_height:'', Num 0],
            Emit Worker M_initFail NoArg, Call Worker M_onInitFail NoArg,
            Log Debug [Str ''NodeController::onInitFail() '', Tid NodeThread], AppExit 1] \<and>
         queues st' NodeThread =
           [MetaCall Worker M_initializeResult (InitResult False \<lparr>header_height = 0\<rparr>)])"
    by (elim conjE exE) auto
  from ctor counts success failure show ?thesis by blast
qed

text \<open>
  Claim C10 as worded (every completed attempt invokes the slot twice, and on failure
  \<open>exit(1)\<close> is called twice) does not hold of this run: the full initialisation
  fails, the worker handles the first delivery of the result, and the event loop, on
  checking its condition, returns. \<open>GuiMain\<close> has returned with one result emitted,
  the slot invoked once, \<open>initFail\<close> emitted once, \<open>exit(1)\<close> called once, and the
  second delivery still in the worker's queue.
\<close>

theorem initializeResult_handled_once:
  "\<exists>st. GuiMain (env_example\<lparr>appInitMain := (\<lambda>n. (False, \<lparr>header_height = 0\<rparr>))\<rparr>)
          [Run NodeThread, Run ExecutorThread, Run NodeThread, LoopCondition] = Some (Some 0, st) \<and>
     length (filter (is_result_emitted False) (trace st)) = 1 \<and>
     length (filter (is_result_handled False) (trace st)) = 1 \<and>
     length (filter (\<lambda>a. a = Emit Worker M_initFail NoArg) (trace st)) = 1 \<and>
     length (filter (\<lambda>a. a = Call Worker M_onInitFail NoArg) (trace st)) = 1 \<and>
     length (filter (\<lambda>a. a = AppExit 1) (trace st)) = 1 \<and>
     queues st NodeThread =
       [MetaCall Worker M_initializeResult (InitResult False \<lparr>header_height = 0\<rparr>)] \<and>
     \<not> in_exec st"
  by (simp add: GuiMain_running [where err = None] env_example_def step_defs loop_entry_def
      initial_state_def ctor_trace_def is_result_emitted_def is_result_handled_def)

end
